theory Spec2Isabelle
  imports Complex_Main
begin

section \<open>Python values and errors\<close>

text \<open>
  The value of a Python number: a rational, an infinity, or \<^verbatim>\<open>nan\<close>. An \<^verbatim>\<open>int\<close> has an
  integer value; a \<^verbatim>\<open>float\<close> is an IEEE 754 binary64 number, that is an infinity, \<^verbatim>\<open>nan\<close>,
  or one of the rationals that \<open>is_double\<close> below accepts. The two zeros of binary64 compare
  equal and are one value here.
\<close>

datatype pynumber = Fin rat | PInf | MInf | NaN

text \<open>
  \<^verbatim>\<open>a > b\<close> on two numbers. Python compares an \<^verbatim>\<open>int\<close> with a \<^verbatim>\<open>float\<close> by their exact
  values; every comparison with \<^verbatim>\<open>nan\<close> is false.
\<close>

fun number_gt :: "pynumber \<Rightarrow> pynumber \<Rightarrow> bool" where
  "number_gt NaN b = False"
| "number_gt a NaN = False"
| "number_gt PInf PInf = False"
| "number_gt PInf b = True"
| "number_gt MInf b = False"
| "number_gt (Fin a) (Fin b) = (b < a)"
| "number_gt (Fin a) MInf = True"
| "number_gt (Fin a) PInf = False"

text \<open>
  binary64 has significands of 53 bits; the exponent of the last place runs from \<open>-1074\<close>
  (the subnormal numbers) to \<open>971\<close>.
\<close>

definition min_exp :: int where
  "min_exp = - 1074"

definition max_exp :: int where
  "max_exp = 971"

text \<open>
  The exponent of the last place for a magnitude \<open>a\<close>: the least exponent \<open>e\<close> of the range
  with \<open>a < 2 powi (e + 53)\<close>. There is none when \<open>a\<close> is \<open>2 powi 1024\<close> or more.
\<close>

definition ulp_exp :: "rat \<Rightarrow> int option" where
  "ulp_exp a = find (\<lambda>e. a < 2 powi (e + 53)) [min_exp..max_exp]"

text \<open>Rounding to the nearest integer, a tie going to the even one.\<close>

definition round_half_even :: "rat \<Rightarrow> int" where
  "round_half_even y =
     (let f = \<lfloor>y\<rfloor>; r = y - of_int f
      in if r < 1 / 2 then f else if 1 / 2 < r then f + 1 else if even f then f else f + 1)"

text \<open>
  The binary64 magnitude nearest to a magnitude \<open>a\<close>; \<open>None\<close> is the overflow, which the
  arithmetic answers with an infinity.
\<close>

definition round_mag :: "rat \<Rightarrow> rat option" where
  "round_mag a =
     (case ulp_exp a of
        None \<Rightarrow> None
      | Some e \<Rightarrow>
          (let r = of_int (round_half_even (a / 2 powi e)) * 2 powi e
           in if r < 2 powi 1024 then Some r else None))"

text \<open>The float that an exact result \<open>q\<close> is rounded to.\<close>

definition to_double :: "rat \<Rightarrow> pynumber" where
  "to_double q =
     (if 0 \<le> q then (case round_mag q of None \<Rightarrow> PInf | Some r \<Rightarrow> Fin r)
      else (case round_mag (- q) of None \<Rightarrow> MInf | Some r \<Rightarrow> Fin (- r)))"

text \<open>The rationals that are binary64 numbers: whole multiples of their last place.\<close>

definition is_double :: "rat \<Rightarrow> bool" where
  "is_double q =
     (case ulp_exp \<bar>q\<bar> of
        None \<Rightarrow> False
      | Some e \<Rightarrow> of_int \<lfloor>\<bar>q\<bar> / 2 powi e\<rfloor> = \<bar>q\<bar> / 2 powi e)"

text \<open>\<^verbatim>\<open>a + b\<close> on two floats: the exact sum, rounded.\<close>

fun float_add :: "pynumber \<Rightarrow> pynumber \<Rightarrow> pynumber" where
  "float_add NaN b = NaN"
| "float_add a NaN = NaN"
| "float_add PInf MInf = NaN"
| "float_add MInf PInf = NaN"
| "float_add PInf b = PInf"
| "float_add MInf b = MInf"
| "float_add (Fin a) PInf = PInf"
| "float_add (Fin a) MInf = MInf"
| "float_add (Fin a) (Fin b) = to_double (a + b)"

text \<open>
  The values that travel through \<^verbatim>\<open>SmHmBinarySFR\<close> as keyword arguments. \<open>PInt\<close> carries an
  integer and \<open>PFloat\<close> a float.
\<close>

datatype pyval =
    PNone
  | PBool bool
  | PInt int
  | PFloat pynumber
  | PStr string
  | PList "pyval list"

datatype error =
    TypeError
  | KeyError
  | ValueError
  | OtherError string

type_synonym kwargs_dict = "string \<rightharpoonup> pyval"

text \<open>A float literal of the source, such as \<^verbatim>\<open>0.2\<close>: the float nearest to the decimal.\<close>

definition float_literal :: "rat \<Rightarrow> pyval" where
  "float_literal q = PFloat (to_double q)"

text \<open>A galaxy record: named columns holding numbers.\<close>

type_synonym galaxy = "string \<rightharpoonup> pynumber"

text \<open>The number a Python value denotes (\<^verbatim>\<open>bool\<close> is a subclass of \<^verbatim>\<open>int\<close>).\<close>

fun py_num :: "pyval \<Rightarrow> pynumber option" where
  "py_num (PInt i) = Some (Fin (of_int i))"
| "py_num (PFloat f) = Some f"
| "py_num (PBool b) = Some (Fin (if b then 1 else 0))"
| "py_num PNone = None"
| "py_num (PStr s) = None"
| "py_num (PList xs) = None"

text \<open>
  \<^verbatim>\<open>v > t\<close> for a number \<open>v\<close>: the comparison of the two numbers when \<open>t\<close> is one, and the
  \<^verbatim>\<open>TypeError\<close> of Python 3 when it is \<^verbatim>\<open>None\<close>, a string or a list.
\<close>

definition py_gt :: "pynumber \<Rightarrow> pyval \<Rightarrow> error + bool" where
  "py_gt v t = (case py_num t of None \<Rightarrow> Inl TypeError | Some q \<Rightarrow> Inr (number_gt v q))"

text \<open>
  The numeric values: every \<^verbatim>\<open>int\<close> and \<^verbatim>\<open>bool\<close>, and every float (a finite one is a
  binary64 number).
\<close>

fun numeric :: "pyval \<Rightarrow> bool" where
  "numeric (PInt i) = True"
| "numeric (PBool b) = True"
| "numeric (PFloat (Fin q)) = is_double q"
| "numeric (PFloat PInf) = True"
| "numeric (PFloat MInf) = True"
| "numeric (PFloat NaN) = True"
| "numeric PNone = False"
| "numeric (PStr s) = False"
| "numeric (PList xs) = False"

text \<open>
  \<^verbatim>\<open>T + 1\<close> and \<^verbatim>\<open>T - 1\<close>: exact on an \<^verbatim>\<open>int\<close> (and on a \<^verbatim>\<open>bool\<close>, whose result is an
  \<^verbatim>\<open>int\<close>), the rounded float sum on a float, and a \<^verbatim>\<open>TypeError\<close> otherwise.
\<close>

fun py_plus_one :: "pyval \<Rightarrow> error + pyval" where
  "py_plus_one (PInt i) = Inr (PInt (i + 1))"
| "py_plus_one (PBool b) = Inr (PInt ((if b then 1 else 0) + 1))"
| "py_plus_one (PFloat f) = Inr (PFloat (float_add f (Fin 1)))"
| "py_plus_one PNone = Inl TypeError"
| "py_plus_one (PStr s) = Inl TypeError"
| "py_plus_one (PList xs) = Inl TypeError"

fun py_minus_one :: "pyval \<Rightarrow> error + pyval" where
  "py_minus_one (PInt i) = Inr (PInt (i - 1))"
| "py_minus_one (PBool b) = Inr (PInt ((if b then 1 else 0) - 1))"
| "py_minus_one (PFloat f) = Inr (PFloat (float_add f (Fin (- 1))))"
| "py_minus_one PNone = Inl TypeError"
| "py_minus_one (PStr s) = Inl TypeError"
| "py_minus_one (PList xs) = Inl TypeError"

section \<open>The collaborators\<close>

text \<open>
  A component model is an object of the collaborating modules; all that
  \<^verbatim>\<open>SmHmBinarySFR\<close> reads of it is its attribute \<^verbatim>\<open>galprop_name\<close>.
\<close>

datatype 'o component = Component (galprop_name: string) (internals: 'o)

text \<open>The keyword arguments of the call at lines 103-105.\<close>

record sfr_args =
  sfr_galprop_name :: string
  sfr_prim_haloprop_key :: string
  abcissa :: pyval
  ordinates :: pyval
  sfr_logparam :: pyval
  sfr_kwargs :: kwargs_dict

text \<open>The keyword arguments of the call at lines 107-109.\<close>

record smhm_args =
  smhm_prim_haloprop_key :: string
  smhm_redshift :: pyval
  scatter_abcissa :: pyval
  scatter_ordinates :: pyval
  smhm_kwargs :: kwargs_dict

text \<open>
  The arguments of \<^verbatim>\<open>factories.SubhaloModelFactory\<close>: the blueprint, and the keyword
  \<^verbatim>\<open>galaxy_selection_func\<close>, which is \<open>None\<close> when the call does not pass it (line 118).
\<close>

record 'o factory_args =
  blueprint :: "string \<rightharpoonup> 'o component"
  galaxy_selection_func :: "(galaxy \<Rightarrow> error + bool) option"

type_synonym 'o smhm_callable = "smhm_args \<Rightarrow> error + 'o component"

text \<open>
  The names \<^verbatim>\<open>SmHmBinarySFR\<close> imports and does not define: the two default values, the
  default stellar-mass model, the SFR model and the factory. Their code is not part of the
  module, so they are parameters of the model. A constructor either raises or returns.
\<close>

record ('o, 'm) env =
  default_smhm_haloprop :: string
  default_redshift :: pyval
  Behroozi10SmHm :: "'o smhm_callable"
  BinaryGalpropInterpolModel :: "sfr_args \<Rightarrow> error + 'o component"
  SubhaloModelFactory :: "'o factory_args \<Rightarrow> error + 'm"

text \<open>The calls a run makes to its collaborators, in order.\<close>

datatype 'o call =
    SfrCall sfr_args
  | SmhmCall "'o smhm_callable" smhm_args
  | FactoryCall "'o factory_args"

section \<open>SmHmBinarySFR\<close>

text \<open>
  The parameters of one call. \<open>None\<close> is a parameter the caller left out, which then takes
  the default of the signature (lines 28-34); \<open>kwargs\<close> holds every other keyword.
\<close>

record 'o params =
  prim_haloprop_key :: "string option"
  smhm_model :: "'o smhm_callable option"
  scatter_level :: "pyval option"
  redshift :: "pyval option"
  sfr_abcissa :: "pyval option"
  sfr_ordinates :: "pyval option"
  logparam :: "pyval option"
  kwargs :: kwargs_dict

definition the_default :: "'a \<Rightarrow> 'a option \<Rightarrow> 'a" where
  "the_default d x = (case x of None \<Rightarrow> d | Some v \<Rightarrow> v)"

definition bound_prim_haloprop_key :: "('o, 'm) env \<Rightarrow> 'o params \<Rightarrow> string" where
  "bound_prim_haloprop_key env p = the_default (default_smhm_haloprop env) (prim_haloprop_key p)"

definition bound_smhm_model :: "('o, 'm) env \<Rightarrow> 'o params \<Rightarrow> 'o smhm_callable" where
  "bound_smhm_model env p = the_default (Behroozi10SmHm env) (smhm_model p)"

definition bound_scatter_level :: "'o params \<Rightarrow> pyval" where
  "bound_scatter_level p = the_default (float_literal (2 / 10)) (scatter_level p)"

definition bound_redshift :: "('o, 'm) env \<Rightarrow> 'o params \<Rightarrow> pyval" where
  "bound_redshift env p = the_default (default_redshift env) (redshift p)"

definition bound_sfr_abcissa :: "'o params \<Rightarrow> pyval" where
  "bound_sfr_abcissa p = the_default (PList [PInt 12, PInt 15]) (sfr_abcissa p)"

definition bound_sfr_ordinates :: "'o params \<Rightarrow> pyval" where
  "bound_sfr_ordinates p =
     the_default (PList [float_literal (25 / 100), float_literal (75 / 100)]) (sfr_ordinates p)"

definition bound_logparam :: "'o params \<Rightarrow> pyval" where
  "bound_logparam p = the_default (PBool True) (logparam p)"

text \<open>
  A call \<^verbatim>\<open>f(a=..., **kwargs)\<close> raises \<^verbatim>\<open>TypeError\<close> before \<^verbatim>\<open>f\<close> is entered when
  \<^verbatim>\<open>kwargs\<close> holds one of the keywords written out in the call.
\<close>

definition keyword_clash :: "string list \<Rightarrow> kwargs_dict \<Rightarrow> bool" where
  "keyword_clash names kw = list_ex (\<lambda>k. kw k \<noteq> None) names"

definition sfr_keywords :: "string list" where
  "sfr_keywords = [''galprop_name'', ''prim_haloprop_key'', ''abcissa'', ''ordinates'', ''logparam'']"

definition smhm_keywords :: "string list" where
  "smhm_keywords = [''prim_haloprop_key'', ''redshift'', ''scatter_abcissa'', ''scatter_ordinates'']"

definition sfr_args_of :: "('o, 'm) env \<Rightarrow> 'o params \<Rightarrow> sfr_args" where
  "sfr_args_of env p =
     \<lparr>sfr_galprop_name = ''quiescent'',
      sfr_prim_haloprop_key = bound_prim_haloprop_key env p,
      abcissa = bound_sfr_abcissa p,
      ordinates = bound_sfr_ordinates p,
      sfr_logparam = bound_logparam p,
      sfr_kwargs = kwargs p\<rparr>"

definition smhm_args_of :: "('o, 'm) env \<Rightarrow> 'o params \<Rightarrow> smhm_args" where
  "smhm_args_of env p =
     \<lparr>smhm_prim_haloprop_key = bound_prim_haloprop_key env p,
      smhm_redshift = bound_redshift env p,
      scatter_abcissa = PList [PInt 12],
      scatter_ordinates = PList [bound_scatter_level p],
      smhm_kwargs = kwargs p\<rparr>"

text \<open>
  Line 114, \<^verbatim>\<open>lambda x: x['stellar_mass'] > kwargs['threshold']\<close>: the closure keeps
  \<^verbatim>\<open>kwargs\<close> and looks both keys up when it is applied.
\<close>

definition selection_lambda :: "kwargs_dict \<Rightarrow> galaxy \<Rightarrow> error + bool" where
  "selection_lambda kw x =
     (case x ''stellar_mass'' of
        None \<Rightarrow> Inl KeyError
      | Some v \<Rightarrow> (case kw ''threshold'' of None \<Rightarrow> Inl KeyError | Some t \<Rightarrow> py_gt v t))"

text \<open>Line 111: a dictionary display stores its items from left to right.\<close>

definition blueprint_of :: "'o component \<Rightarrow> 'o component \<Rightarrow> (string \<rightharpoonup> 'o component)" where
  "blueprint_of sm_model sfr_model =
     [galprop_name sm_model \<mapsto> sm_model, galprop_name sfr_model \<mapsto> sfr_model]"

text \<open>Lines 113-118: what the factory is called with.\<close>

definition factory_args_of :: "kwargs_dict \<Rightarrow> 'o component \<Rightarrow> 'o component \<Rightarrow> 'o factory_args" where
  "factory_args_of kw sm_model sfr_model =
     (if kw ''threshold'' \<noteq> None
      then \<lparr>blueprint = blueprint_of sm_model sfr_model,
            galaxy_selection_func = Some (selection_lambda kw)\<rparr>
      else \<lparr>blueprint = blueprint_of sm_model sfr_model,
            galaxy_selection_func = None\<rparr>)"

text \<open>
  The function body, lines 103-120. The result pairs the calls made, in order, with what
  the caller gets: the error raised, or the model returned.
\<close>

definition SmHmBinarySFR :: "('o, 'm) env \<Rightarrow> 'o params \<Rightarrow> 'o call list \<times> (error + 'm)" where
  "SmHmBinarySFR env p =
     (if keyword_clash sfr_keywords (kwargs p) then ([], Inl TypeError)
      else
       (case BinaryGalpropInterpolModel env (sfr_args_of env p) of
          Inl e \<Rightarrow> ([SfrCall (sfr_args_of env p)], Inl e)
        | Inr sfr_model \<Rightarrow>
           (if keyword_clash smhm_keywords (kwargs p)
            then ([SfrCall (sfr_args_of env p)], Inl TypeError)
            else
             (case bound_smhm_model env p (smhm_args_of env p) of
                Inl e \<Rightarrow>
                  ([SfrCall (sfr_args_of env p),
                    SmhmCall (bound_smhm_model env p) (smhm_args_of env p)], Inl e)
              | Inr sm_model \<Rightarrow>
                  ([SfrCall (sfr_args_of env p),
                    SmhmCall (bound_smhm_model env p) (smhm_args_of env p),
                    FactoryCall (factory_args_of (kwargs p) sm_model sfr_model)],
                   SubhaloModelFactory env (factory_args_of (kwargs p) sm_model sfr_model))))))"

section \<open>HOD_Model_Designer\<close>


section \<open>Observing a run\<close>

text \<open>What a collaborator answers to a recorded call: the error it raises, if any.\<close>

fun raised :: "('o, 'm) env \<Rightarrow> 'o call \<Rightarrow> error option" where
  "raised env (SfrCall a) =
     (case BinaryGalpropInterpolModel env a of Inl e \<Rightarrow> Some e | Inr c \<Rightarrow> None)"
| "raised env (SmhmCall f a) = (case f a of Inl e \<Rightarrow> Some e | Inr c \<Rightarrow> None)"
| "raised env (FactoryCall fa) =
     (case SubhaloModelFactory env fa of Inl e \<Rightarrow> Some e | Inr m \<Rightarrow> None)"

text \<open>The arguments of the first factory call of a run.\<close>

fun factory_call_of :: "'o call list \<Rightarrow> 'o factory_args option" where
  "factory_call_of [] = None"
| "factory_call_of (FactoryCall fa # cs) = Some fa"
| "factory_call_of (SfrCall a # cs) = factory_call_of cs"
| "factory_call_of (SmhmCall f a # cs) = factory_call_of cs"

definition blueprint_entry :: "'o call list \<Rightarrow> string \<Rightarrow> 'o component option" where
  "blueprint_entry cs k = (case factory_call_of cs of None \<Rightarrow> None | Some fa \<Rightarrow> blueprint fa k)"

definition predicate_attached :: "'o call list \<Rightarrow> bool" where
  "predicate_attached cs =
     (case factory_call_of cs of None \<Rightarrow> False | Some fa \<Rightarrow> galaxy_selection_func fa \<noteq> None)"

text \<open>What the predicate passed to the factory answers on a galaxy record.\<close>

definition applied_predicate :: "'o call list \<Rightarrow> galaxy \<Rightarrow> (error + bool) option" where
  "applied_predicate cs x =
     (case factory_call_of cs of
        None \<Rightarrow> None
      | Some fa \<Rightarrow>
          (case galaxy_selection_func fa of None \<Rightarrow> None | Some pred \<Rightarrow> Some (pred x)))"

fun smhm_calls :: "'o call list \<Rightarrow> ('o smhm_callable \<times> smhm_args) list" where
  "smhm_calls [] = []"
| "smhm_calls (SmhmCall f a # cs) = (f, a) # smhm_calls cs"
| "smhm_calls (SfrCall a # cs) = smhm_calls cs"
| "smhm_calls (FactoryCall fa # cs) = smhm_calls cs"

text \<open>
  Both sub-models are constructed: neither call is stopped by a repeated keyword, and
  neither constructor raises. These are the runs that reach line 111.
\<close>

definition submodels_built ::
  "('o, 'm) env \<Rightarrow> 'o params \<Rightarrow> 'o component \<Rightarrow> 'o component \<Rightarrow> bool" where
  "submodels_built env p sfr_model sm_model \<longleftrightarrow>
     \<not> keyword_clash sfr_keywords (kwargs p) \<and>
     BinaryGalpropInterpolModel env (sfr_args_of env p) = Inr sfr_model \<and>
     \<not> keyword_clash smhm_keywords (kwargs p) \<and>
     bound_smhm_model env p (smhm_args_of env p) = Inr sm_model"

section \<open>Concrete collaborators and calls\<close>

text \<open>
  Modelled from the spec: the SFR model's constructor, whose code is not part of the
  module. It rejects control points of mismatched lengths or that are not sequences, and
  otherwise returns a model that declares the property name it was given.
\<close>

definition stub_sfr_model :: "sfr_args \<Rightarrow> error + nat component" where
  "stub_sfr_model a =
     (case abcissa a of
        PList xs \<Rightarrow>
          (case ordinates a of
             PList ys \<Rightarrow>
               if length xs = length ys then Inr (Component (sfr_galprop_name a) 0)
               else Inl ValueError
           | _ \<Rightarrow> Inl TypeError)
      | _ \<Rightarrow> Inl TypeError)"

text \<open>
  Modelled from the spec: the default stellar-mass model, which declares the property
  name \<^verbatim>\<open>stellar_mass\<close>.
\<close>

definition stub_smhm_model :: "nat smhm_callable" where
  "stub_smhm_model a = Inr (Component ''stellar_mass'' 1)"

text \<open>
  Modelled from the spec: the factory, which accepts a blueprint and an optional
  predicate; the composite model it returns is represented by what it was built from.
\<close>

definition stub_factory :: "nat factory_args \<Rightarrow> error + nat factory_args" where
  "stub_factory fa = Inr fa"

definition stub_env :: "(nat, nat factory_args) env" where
  "stub_env =
     \<lparr>default_smhm_haloprop = ''halo_mpeak'',
      default_redshift = PFloat (Fin 0),
      Behroozi10SmHm = stub_smhm_model,
      BinaryGalpropInterpolModel = stub_sfr_model,
      SubhaloModelFactory = stub_factory\<rparr>"

text \<open>\<^verbatim>\<open>SmHmBinarySFR()\<close> and \<^verbatim>\<open>SmHmBinarySFR(**kw)\<close>.\<close>

definition call_with :: "kwargs_dict \<Rightarrow> nat params" where
  "call_with kw =
     \<lparr>prim_haloprop_key = None, smhm_model = None, scatter_level = None, redshift = None,
      sfr_abcissa = None, sfr_ordinates = None, logparam = None, kwargs = kw\<rparr>"

text \<open>\<^verbatim>\<open>SmHmBinarySFR(smhm_model=f, **kw)\<close>.\<close>

definition custom_call :: "nat smhm_callable \<Rightarrow> kwargs_dict \<Rightarrow> nat params" where
  "custom_call f kw =
     \<lparr>prim_haloprop_key = None, smhm_model = Some f, scatter_level = None, redshift = None,
      sfr_abcissa = None, sfr_ordinates = None, logparam = None, kwargs = kw\<rparr>"

text \<open>
  \<^verbatim>\<open>SmHmBinarySFR(prim_haloprop_key='halo_mvir', smhm_model=f, scatter_level=0.3,
  redshift=0.5, sfr_abcissa=[12, 15], sfr_ordinates=[0.25, 0.75], logparam=True)\<close>.
\<close>

definition tuned_call :: "nat smhm_callable \<Rightarrow> nat params" where
  "tuned_call f =
     \<lparr>prim_haloprop_key = Some ''halo_mvir'', smhm_model = Some f,
      scatter_level = Some (float_literal (3 / 10)), redshift = Some (float_literal (1 / 2)),
      sfr_abcissa = Some (PList [PInt 12, PInt 15]),
      sfr_ordinates = Some (PList [float_literal (25 / 100), float_literal (75 / 100)]),
      logparam = Some (PBool True), kwargs = Map.empty\<rparr>"

text \<open>Custom stellar-mass models, declaring the names \<^verbatim>\<open>mstar\<close> and \<^verbatim>\<open>quiescent\<close>.\<close>

definition mstar_model :: "nat smhm_callable" where
  "mstar_model a = Inr (Component ''mstar'' 2)"

definition quiescent_named_model :: "nat smhm_callable" where
  "quiescent_named_model a = Inr (Component ''quiescent'' 2)"

definition failing_model :: "nat smhm_callable" where
  "failing_model a = Inl (OtherError ''rejected'')"

section \<open>Rounding to binary64\<close>

lemma upto_nth_exp:
  "j < length [min_exp..max_exp] \<Longrightarrow> [min_exp..max_exp] ! j = min_exp + int j"
  by (simp add: nth_upto)

lemma exp_range: "min_exp \<le> max_exp"
  by (simp add: min_exp_def max_exp_def)

lemma ulp_exp_SomeD:
  assumes "ulp_exp a = Some e"
  shows "min_exp \<le> e" and "e \<le> max_exp" and "a < 2 powi (e + 53)"
    and "e = min_exp \<or> 2 powi (e + 52) \<le> a"
proof -
  let ?xs = "[min_exp..max_exp]"
  from assms obtain i where i: "i < length ?xs" and P: "a < 2 powi (?xs ! i + 53)"
    and e: "e = ?xs ! i" and least: "\<forall>j<i. \<not> a < 2 powi (?xs ! j + 53)"
    unfolding ulp_exp_def find_Some_iff by blast
  have ei: "e = min_exp + int i"
    using e i by (simp add: upto_nth_exp)
  show "min_exp \<le> e"
    using ei by simp
  show "e \<le> max_exp"
    using ei i by simp
  show "a < 2 powi (e + 53)"
    using P e by simp
  show "e = min_exp \<or> 2 powi (e + 52) \<le> a"
  proof (cases i)
    case 0
    then show ?thesis using ei by simp
  next
    case (Suc j)
    then have "j < i" by simp
    with least have "\<not> a < 2 powi (?xs ! j + 53)" by blast
    moreover have "?xs ! j = e - 1"
      using Suc i ei by (simp add: upto_nth_exp)
    ultimately have "2 powi (e - 1 + 53) \<le> a" by simp
    moreover have "e - 1 + 53 = e + 52" by simp
    ultimately show ?thesis by simp
  qed
qed

lemma ulp_exp_SomeI:
  assumes lo: "min_exp \<le> e" and hi: "e \<le> max_exp" and less: "a < 2 powi (e + 53)"
    and least: "e = min_exp \<or> 2 powi (e + 52) \<le> a"
  shows "ulp_exp a = Some e"
proof -
  let ?xs = "[min_exp..max_exp]"
  let ?i = "nat (e - min_exp)"
  have len: "?i < length ?xs"
    using lo hi by simp
  have nth: "?xs ! ?i = e"
    using len lo by (simp add: upto_nth_exp)
  have before: "\<forall>j<?i. \<not> a < 2 powi (?xs ! j + 53)"
  proof (intro allI impI)
    fix j assume j: "j < ?i"
    then have jl: "j < length ?xs" using len by linarith
    have ej: "?xs ! j = min_exp + int j" using jl by (rule upto_nth_exp)
    from j have ne: "e \<noteq> min_exp" by auto
    with least have ge: "2 powi (e + 52) \<le> a" by simp
    have "min_exp + int j + 53 \<le> e + 52" using j by simp
    then have "(2::rat) powi (min_exp + int j + 53) \<le> 2 powi (e + 52)"
      by (intro power_int_increasing) simp_all
    with ge show "\<not> a < 2 powi (?xs ! j + 53)" by (simp add: ej)
  qed
  show ?thesis
    unfolding ulp_exp_def find_Some_iff
    by (rule exI [of _ ?i]) (use len nth less before in simp)
qed

lemma ulp_exp_exists:
  assumes "a < 2 powi 1024"
  shows "\<exists>e. ulp_exp a = Some e"
proof -
  have "max_exp \<in> set [min_exp..max_exp]"
    using exp_range by simp
  moreover have "a < 2 powi (max_exp + 53)"
    using assms by (simp add: max_exp_def)
  ultimately have "find (\<lambda>e. a < 2 powi (e + 53)) [min_exp..max_exp] \<noteq> None"
    unfolding find_None_iff by blast
  then show ?thesis by (auto simp: ulp_exp_def)
qed

lemma ulp_exp_mono:
  assumes ab: "a \<le> b" and ea: "ulp_exp a = Some ea" and eb: "ulp_exp b = Some eb"
  shows "ea \<le> eb"
proof (rule ccontr)
  assume "\<not> ea \<le> eb"
  then have less: "eb < ea" by simp
  have "min_exp \<le> eb" using ulp_exp_SomeD(1) [OF eb] .
  with less have "ea \<noteq> min_exp" by simp
  with ulp_exp_SomeD(4) [OF ea] have "2 powi (ea + 52) \<le> a" by simp
  also have "a \<le> b" by (rule ab)
  also have "b < 2 powi (eb + 53)" using ulp_exp_SomeD(3) [OF eb] .
  also have "(2::rat) powi (eb + 53) \<le> 2 powi (ea + 52)"
    using less by (intro power_int_increasing) simp_all
  finally show False by simp
qed

lemma round_half_even_ge: "of_int k \<le> y \<Longrightarrow> k \<le> round_half_even y"
proof -
  assume "of_int k \<le> y"
  then have "k \<le> \<lfloor>y\<rfloor>" by (simp add: le_floor_iff)
  moreover have "\<lfloor>y\<rfloor> \<le> round_half_even y"
    by (simp add: round_half_even_def Let_def)
  ultimately show ?thesis by simp
qed

lemma round_half_even_le: "y \<le> of_int k \<Longrightarrow> round_half_even y \<le> k"
proof (cases "y = of_int k")
  case True
  then show ?thesis by (simp add: round_half_even_def)
next
  case False
  assume "y \<le> of_int k"
  with False have "y < of_int k" by simp
  then have "\<lfloor>y\<rfloor> < k" by (simp add: floor_less_iff)
  moreover have "round_half_even y \<le> \<lfloor>y\<rfloor> + 1"
    by (simp add: round_half_even_def Let_def)
  ultimately show ?thesis by simp
qed

lemma is_double_grid:
  assumes d: "is_double t" and nonneg: "0 \<le> t"
  obtains et k where "ulp_exp t = Some et" and "t = of_int k * 2 powi et"
proof -
  from d nonneg obtain et where et: "ulp_exp t = Some et"
    and int: "of_int \<lfloor>t / 2 powi et\<rfloor> = t / 2 powi et"
    by (auto simp: is_double_def split: option.splits)
  have "t = of_int \<lfloor>t / 2 powi et\<rfloor> * 2 powi et"
    by (simp add: int)
  with et show thesis by (rule that)
qed

lemma round_mag_nonneg:
  assumes "0 \<le> x" and "round_mag x = Some r"
  shows "0 \<le> r"
proof -
  from assms(2) obtain e where r: "r = of_int (round_half_even (x / 2 powi e)) * 2 powi e"
    by (auto simp: round_mag_def Let_def split: option.splits if_splits)
  have "of_int 0 \<le> x / 2 powi e"
    using assms(1) by simp
  then have "0 \<le> round_half_even (x / 2 powi e)"
    by (rule round_half_even_ge)
  then show ?thesis by (simp add: r)
qed

lemma round_mag_below:
  assumes x0: "0 \<le> x" and xt: "x \<le> t" and d: "is_double t"
  shows "\<exists>r. round_mag x = Some r \<and> r \<le> t"
proof -
  have t0: "0 \<le> t" using x0 xt by simp
  from d t0 obtain et k where et: "ulp_exp t = Some et" and t: "t = of_int k * 2 powi et"
    by (rule is_double_grid)
  have t_less: "t < 2 powi 1024"
  proof -
    have "t < 2 powi (et + 53)" using ulp_exp_SomeD(3) [OF et] .
    also have "(2::rat) powi (et + 53) \<le> 2 powi 1024"
      using ulp_exp_SomeD(2) [OF et] by (intro power_int_increasing) (simp_all add: max_exp_def)
    finally show ?thesis .
  qed
  with xt have "x < 2 powi 1024" by simp
  then obtain ex where ex: "ulp_exp x = Some ex"
    using ulp_exp_exists by blast
  have le: "ex \<le> et" by (rule ulp_exp_mono [OF xt ex et])
  let ?K = "k * 2 ^ nat (et - ex)"
  have "(2::rat) powi et = 2 powi (et - ex) * 2 powi ex"
    by (simp flip: power_int_add)
  also have "(2::rat) powi (et - ex) = 2 ^ nat (et - ex)"
    using le by (simp add: power_int_nonneg_exp)
  finally have tK: "t = of_int ?K * 2 powi ex"
    by (simp add: t)
  have "x / 2 powi ex \<le> of_int ?K"
    using xt by (simp add: tK field_simps)
  then have "round_half_even (x / 2 powi ex) \<le> ?K"
    by (rule round_half_even_le)
  then have "(of_int (round_half_even (x / 2 powi ex)) :: rat) \<le> of_int ?K"
    by (simp only: of_int_le_iff)
  then have rt: "of_int (round_half_even (x / 2 powi ex)) * 2 powi ex \<le> t"
    unfolding tK by (rule mult_right_mono) simp
  with t_less have "of_int (round_half_even (x / 2 powi ex)) * 2 powi ex < (2::rat) powi 1024"
    by simp
  then have "round_mag x = Some (of_int (round_half_even (x / 2 powi ex)) * 2 powi ex)"
    by (simp add: round_mag_def ex Let_def)
  with rt show ?thesis by blast
qed

lemma round_mag_above:
  assumes t0: "0 \<le> t" and tx: "t \<le> x" and d: "is_double t" and r: "round_mag x = Some r"
  shows "t \<le> r"
proof -
  from d t0 obtain et k where et: "ulp_exp t = Some et" and t: "t = of_int k * 2 powi et"
    by (rule is_double_grid)
  from r obtain ex where ex: "ulp_exp x = Some ex"
    and rdef: "r = of_int (round_half_even (x / 2 powi ex)) * 2 powi ex"
    by (auto simp: round_mag_def Let_def split: option.splits if_splits)
  have le: "et \<le> ex" by (rule ulp_exp_mono [OF tx et ex])
  show ?thesis
  proof (cases "et = ex")
    case True
    have "of_int k \<le> x / 2 powi ex"
      using tx by (simp add: t True field_simps)
    then have "k \<le> round_half_even (x / 2 powi ex)"
      by (rule round_half_even_ge)
    then have "(of_int k :: rat) \<le> of_int (round_half_even (x / 2 powi ex))"
      by (simp only: of_int_le_iff)
    then have "of_int k * 2 powi ex \<le> of_int (round_half_even (x / 2 powi ex)) * (2::rat) powi ex"
      by (rule mult_right_mono) simp
    then show ?thesis by (simp add: t True rdef)
  next
    case False
    with le have less: "et < ex" by simp
    have "min_exp \<le> et" using ulp_exp_SomeD(1) [OF et] .
    with less have "ex \<noteq> min_exp" by simp
    with ulp_exp_SomeD(4) [OF ex] have big: "2 powi (ex + 52) \<le> x" by simp
    have "(2::rat) powi (ex + 52) = 2 ^ 52 * 2 powi ex"
      by (simp add: power_int_add)
    with big have "of_int (2 ^ 52) \<le> x / 2 powi ex"
      by (simp add: field_simps)
    then have "2 ^ 52 \<le> round_half_even (x / 2 powi ex)"
      by (rule round_half_even_ge)
    then have "(of_int (2 ^ 52) :: rat) \<le> of_int (round_half_even (x / 2 powi ex))"
      by (simp only: of_int_le_iff)
    then have "of_int (2 ^ 52) * 2 powi ex \<le> of_int (round_half_even (x / 2 powi ex)) * (2::rat) powi ex"
      by (rule mult_right_mono) simp
    then have "(2::rat) powi (ex + 52) \<le> r"
      by (simp add: rdef power_int_add)
    moreover have "t < 2 powi (et + 53)" using ulp_exp_SomeD(3) [OF et] .
    moreover have "(2::rat) powi (et + 53) \<le> 2 powi (ex + 52)"
      using less by (intro power_int_increasing) simp_all
    ultimately show ?thesis by simp
  qed
qed

lemma is_double_minus [simp]: "is_double (- t) = is_double t"
  by (simp add: is_double_def cong: option.case_cong)

lemma to_double_not_NaN [simp]: "to_double q \<noteq> NaN"
  by (simp add: to_double_def split: option.splits)

lemma to_double_below:
  assumes d: "is_double t" and xt: "x \<le> t"
  shows "\<not> number_gt (to_double x) (Fin t)"
proof (cases "0 \<le> x")
  case True
  from round_mag_below [OF True xt d] obtain r where "round_mag x = Some r" and "r \<le> t"
    by blast
  with True show ?thesis by (simp add: to_double_def)
next
  case False
  then have neg: "0 \<le> - x" by simp
  show ?thesis
  proof (cases "round_mag (- x)")
    case None
    with False show ?thesis by (simp add: to_double_def)
  next
    case (Some r)
    have r0: "0 \<le> r" by (rule round_mag_nonneg [OF neg Some])
    have "- r \<le> t"
    proof (cases "0 \<le> t")
      case True
      with r0 show ?thesis by simp
    next
      case neg_t: False
      have "- t \<le> r"
        by (rule round_mag_above [OF _ _ _ Some]) (use neg_t xt d in simp_all)
      then show ?thesis by simp
    qed
    with False Some show ?thesis by (simp add: to_double_def)
  qed
qed

lemma to_double_above:
  assumes d: "is_double t" and tx: "t \<le> x"
  shows "\<not> number_gt (Fin t) (to_double x)"
proof (cases "0 \<le> x")
  case True
  show ?thesis
  proof (cases "round_mag x")
    case None
    with True show ?thesis by (simp add: to_double_def)
  next
    case (Some r)
    have "t \<le> r"
    proof (cases "0 \<le> t")
      case True
      show ?thesis by (rule round_mag_above [OF True tx d Some])
    next
      case False
      moreover have "0 \<le> r" by (rule round_mag_nonneg [OF True Some])
      ultimately show ?thesis by simp
    qed
    with True Some show ?thesis by (simp add: to_double_def)
  qed
next
  case False
  then have neg: "0 \<le> - x" by simp
  have "- x \<le> - t" using tx by simp
  from round_mag_below [OF neg this] d obtain r where "round_mag (- x) = Some r" and "r \<le> - t"
    by auto
  with False show ?thesis by (simp add: to_double_def)
qed

lemma number_gt_irrefl [simp]: "\<not> number_gt a a"
  by (cases a) simp_all

lemma number_gt_trichotomy: "a \<noteq> NaN \<Longrightarrow> b \<noteq> NaN \<Longrightarrow> number_gt a b \<or> a = b \<or> number_gt b a"
  by (cases a; cases b) auto

lemma float_minus_one_below:
  assumes "\<And>q. f = Fin q \<Longrightarrow> is_double q"
  shows "\<not> number_gt (float_add f (Fin (- 1))) f"
proof (cases f)
  case (Fin q)
  then have "is_double q" by (rule assms)
  then have "\<not> number_gt (to_double (q - 1)) (Fin q)"
    by (rule to_double_below) simp
  with Fin show ?thesis by simp
qed simp_all

lemma float_plus_one_above:
  assumes "\<And>q. f = Fin q \<Longrightarrow> is_double q"
  shows "number_gt (float_add f (Fin 1)) f \<longleftrightarrow> float_add f (Fin 1) \<noteq> f"
proof (cases f)
  case (Fin q)
  then have "is_double q" by (rule assms)
  then have "\<not> number_gt (Fin q) (to_double (q + 1))"
    by (rule to_double_above) simp
  moreover have "number_gt (to_double (q + 1)) (Fin q) \<or> to_double (q + 1) = Fin q \<or>
      number_gt (Fin q) (to_double (q + 1))"
    by (rule number_gt_trichotomy) simp_all
  ultimately show ?thesis using Fin by auto
qed simp_all

subsection \<open>Particular floats\<close>

lemma floor_divide_numeral_rat:
  "\<lfloor>(numeral a :: rat) / numeral b\<rfloor> = numeral a div numeral b"
  using floor_divide_of_int_eq [of "numeral a" "numeral b", where ?'a = rat] by simp

lemma ulp_exp_2_53: "ulp_exp (9007199254740993) = Some 1"
  by (rule ulp_exp_SomeI) (simp_all add: min_exp_def max_exp_def)

lemma to_double_2_53_plus_1: "to_double (9007199254740993) = Fin (9007199254740992)"
  by (simp add: to_double_def round_mag_def ulp_exp_2_53 round_half_even_def Let_def
      floor_divide_numeral_rat)

lemma ulp_exp_2_53_exact: "ulp_exp (9007199254740992) = Some 1"
  by (rule ulp_exp_SomeI) (simp_all add: min_exp_def max_exp_def)

lemma is_double_2_53: "is_double (9007199254740992)"
  by (simp add: is_double_def ulp_exp_2_53_exact)

lemma ulp_exp_21_2: "ulp_exp (21 / 2) = Some (- 49)"
  by (rule ulp_exp_SomeI) (simp_all add: min_exp_def max_exp_def)

lemma is_double_21_2: "is_double (21 / 2)"
  by (simp add: is_double_def ulp_exp_21_2)

lemma ulp_exp_23_2: "ulp_exp (23 / 2) = Some (- 49)"
  by (rule ulp_exp_SomeI) (simp_all add: min_exp_def max_exp_def)

lemma to_double_23_2: "to_double (23 / 2) = Fin (23 / 2)"
  by (simp add: to_double_def round_mag_def ulp_exp_23_2 round_half_even_def Let_def)

lemma to_double_19_2: "to_double (19 / 2) = Fin (19 / 2)"
proof -
  have "ulp_exp (19 / 2) = Some (- 49)"
    by (rule ulp_exp_SomeI) (simp_all add: min_exp_def max_exp_def)
  then show ?thesis
    by (simp add: to_double_def round_mag_def round_half_even_def Let_def)
qed

lemma float_add_2_53:
  "float_add (Fin 9007199254740992) (Fin 1) = Fin 9007199254740992"
  by (simp add: to_double_2_53_plus_1)

lemma float_add_21_2:
  "float_add (Fin (21 / 2)) (Fin 1) = Fin (23 / 2)"
  "float_add (Fin (21 / 2)) (Fin (- 1)) = Fin (19 / 2)"
  by (simp_all add: to_double_23_2 to_double_19_2)

lemma ulp_exp_quarters:
  "ulp_exp (1 / 4) = Some (- 54)" "ulp_exp (3 / 4) = Some (- 53)" "ulp_exp (1 / 2) = Some (- 53)"
  by (rule ulp_exp_SomeI; simp add: min_exp_def max_exp_def)+

text \<open>The literals \<^verbatim>\<open>0.25\<close>, \<^verbatim>\<open>0.75\<close> and \<^verbatim>\<open>0.5\<close> are exact; \<^verbatim>\<open>0.2\<close> is not.\<close>

lemma float_literal_exact:
  "float_literal (25 / 100) = PFloat (Fin (1 / 4))"
  "float_literal (75 / 100) = PFloat (Fin (3 / 4))"
  "float_literal (1 / 2) = PFloat (Fin (1 / 2))"
  by (simp_all add: float_literal_def to_double_def round_mag_def ulp_exp_quarters
      round_half_even_def Let_def)

lemma ulp_exp_fifth: "ulp_exp (1 / 5) = Some (- 55)"
  by (rule ulp_exp_SomeI; simp add: min_exp_def max_exp_def)

lemma float_literal_fifth:
  "float_literal (2 / 10) = PFloat (Fin (3602879701896397 / 18014398509481984))"
  by (simp add: float_literal_def to_double_def round_mag_def ulp_exp_fifth
      round_half_even_def Let_def floor_divide_numeral_rat)

section \<open>The shape of a run\<close>

lemma SmHmBinarySFR_built:
  assumes "submodels_built env p sfr_model sm_model"
  shows "SmHmBinarySFR env p =
           ([SfrCall (sfr_args_of env p),
             SmhmCall (bound_smhm_model env p) (smhm_args_of env p),
             FactoryCall (factory_args_of (kwargs p) sm_model sfr_model)],
            SubhaloModelFactory env (factory_args_of (kwargs p) sm_model sfr_model))"
  using assms by (simp add: submodels_built_def SmHmBinarySFR_def)

lemma blueprint_factory_args_of [simp]:
  "blueprint (factory_args_of kw sm_model sfr_model) = blueprint_of sm_model sfr_model"
  by (simp add: factory_args_of_def)

lemma stub_default_built:
  "submodels_built stub_env (call_with Map.empty) (Component ''quiescent'' 0)
     (Component ''stellar_mass'' 1)"
  by (simp add: submodels_built_def keyword_clash_def sfr_keywords_def smhm_keywords_def
      stub_env_def call_with_def sfr_args_of_def bound_sfr_abcissa_def bound_sfr_ordinates_def
      the_default_def stub_sfr_model_def bound_smhm_model_def stub_smhm_model_def)

lemma dom_blueprint_of:
  "dom (blueprint_of sm_model sfr_model) = {galprop_name sm_model, galprop_name sfr_model}"
  by (auto simp: blueprint_of_def)

lemma blueprint_of_sfr:
  "blueprint_of sm_model sfr_model (galprop_name sfr_model) = Some sfr_model"
  by (simp add: blueprint_of_def)

lemma blueprint_of_sm:
  "galprop_name sm_model \<noteq> galprop_name sfr_model \<Longrightarrow>
   blueprint_of sm_model sfr_model (galprop_name sm_model) = Some sm_model"
  by (simp add: blueprint_of_def)

section \<open>The blueprint\<close>

text \<open>
  C1. In a valid configuration (both sub-models are constructed and the factory returns a
  model \<open>m\<close>) whose two sub-models declare distinct property names, the call returns \<open>m\<close>,
  built by one factory call from a blueprint with exactly two entries: the stellar-mass
  sub-model under its declared name and the SFR sub-model under its declared name. When
  those names are \<^verbatim>\<open>stellar_mass\<close> and \<^verbatim>\<open>quiescent\<close>, these are the two keys.
\<close>

theorem blueprint_two_entries:
  assumes built: "submodels_built env p sfr_model sm_model"
      and valid: "snd (SmHmBinarySFR env p) = Inr m"
      and names: "galprop_name sm_model \<noteq> galprop_name sfr_model"
  shows "\<exists>fa. SmHmBinarySFR env p =
                 ([SfrCall (sfr_args_of env p),
                   SmhmCall (bound_smhm_model env p) (smhm_args_of env p),
                   FactoryCall fa], Inr m) \<and>
              SubhaloModelFactory env fa = Inr m \<and>
              dom (blueprint fa) = {galprop_name sm_model, galprop_name sfr_model} \<and>
              card (dom (blueprint fa)) = 2 \<and>
              blueprint fa (galprop_name sm_model) = Some sm_model \<and>
              blueprint fa (galprop_name sfr_model) = Some sfr_model \<and>
              (galprop_name sm_model = ''stellar_mass'' \<and> galprop_name sfr_model = ''quiescent''
                 \<longrightarrow> dom (blueprint fa) = {''stellar_mass'', ''quiescent''})"
proof -
  let ?fa = "factory_args_of (kwargs p) sm_model sfr_model"
  have run: "SmHmBinarySFR env p =
      ([SfrCall (sfr_args_of env p), SmhmCall (bound_smhm_model env p) (smhm_args_of env p),
        FactoryCall ?fa], SubhaloModelFactory env ?fa)"
    by (rule SmHmBinarySFR_built [OF built])
  have fac: "SubhaloModelFactory env ?fa = Inr m"
    using valid by (simp add: run)
  have d: "dom (blueprint ?fa) = {galprop_name sm_model, galprop_name sfr_model}"
    by (simp add: dom_blueprint_of)
  have c: "card (dom (blueprint ?fa)) = 2"
    using names by (simp add: dom_blueprint_of)
  have r: "SmHmBinarySFR env p =
      ([SfrCall (sfr_args_of env p), SmhmCall (bound_smhm_model env p) (smhm_args_of env p),
        FactoryCall ?fa], Inr m)"
    by (simp add: run fac)
  have sm: "blueprint ?fa (galprop_name sm_model) = Some sm_model"
    using names by (simp add: blueprint_of_sm)
  have sfr: "blueprint ?fa (galprop_name sfr_model) = Some sfr_model"
    by (simp add: blueprint_of_sfr)
  have dflt: "galprop_name sm_model = ''stellar_mass'' \<and> galprop_name sfr_model = ''quiescent''
                 \<longrightarrow> dom (blueprint ?fa) = {''stellar_mass'', ''quiescent''}"
    by (simp add: dom_blueprint_of)
  show ?thesis
    by (rule exI [of _ ?fa]) (intro conjI r fac d c sm sfr dflt)
qed

lemma stub_default_returns:
  "snd (SmHmBinarySFR stub_env (call_with Map.empty)) =
     Inr (factory_args_of Map.empty (Component ''stellar_mass'' 1) (Component ''quiescent'' 0))"
  by (subst SmHmBinarySFR_built [OF stub_default_built])
     (simp add: stub_env_def stub_factory_def call_with_def)

theorem blueprint_two_entries_witness:
  "\<exists>fa. fst (SmHmBinarySFR stub_env (call_with Map.empty)) =
           [SfrCall (sfr_args_of stub_env (call_with Map.empty)),
            SmhmCall stub_smhm_model (smhm_args_of stub_env (call_with Map.empty)),
            FactoryCall fa] \<and>
        dom (blueprint fa) = {''stellar_mass'', ''quiescent''} \<and>
        card (dom (blueprint fa)) = 2 \<and>
        blueprint fa ''stellar_mass'' = Some (Component ''stellar_mass'' 1) \<and>
        blueprint fa ''quiescent'' = Some (Component ''quiescent'' 0)"
proof -
  have names: "galprop_name (Component ''stellar_mass'' (1::nat)) \<noteq>
               galprop_name (Component ''quiescent'' (0::nat))"
    by simp
  have smhm: "bound_smhm_model stub_env (call_with Map.empty) = stub_smhm_model"
    by (simp add: bound_smhm_model_def the_default_def call_with_def stub_env_def)
  from blueprint_two_entries [OF stub_default_built stub_default_returns names]
  obtain fa where fa:
    "SmHmBinarySFR stub_env (call_with Map.empty) =
       ([SfrCall (sfr_args_of stub_env (call_with Map.empty)),
         SmhmCall (bound_smhm_model stub_env (call_with Map.empty))
           (smhm_args_of stub_env (call_with Map.empty)),
         FactoryCall fa],
        Inr (factory_args_of Map.empty (Component ''stellar_mass'' 1) (Component ''quiescent'' 0)))"
    "dom (blueprint fa) =
       {galprop_name (Component ''stellar_mass'' (1::nat)), galprop_name (Component ''quiescent'' (0::nat))}"
    "card (dom (blueprint fa)) = 2"
    "blueprint fa (galprop_name (Component ''stellar_mass'' (1::nat))) = Some (Component ''stellar_mass'' 1)"
    "blueprint fa (galprop_name (Component ''quiescent'' (0::nat))) = Some (Component ''quiescent'' 0)"
    by (elim exE conjE)
  show ?thesis
    by (rule exI [of _ fa]) (use fa in \<open>simp add: smhm\<close>)
qed

section \<open>The selection predicate\<close>

lemma stub_built:
  assumes "\<not> keyword_clash sfr_keywords kw" and "\<not> keyword_clash smhm_keywords kw"
  shows "submodels_built stub_env (call_with kw) (Component ''quiescent'' 0)
           (Component ''stellar_mass'' 1)"
  using assms
  by (simp add: submodels_built_def stub_env_def call_with_def sfr_args_of_def
      bound_sfr_abcissa_def bound_sfr_ordinates_def the_default_def stub_sfr_model_def
      bound_smhm_model_def stub_smhm_model_def)

lemma threshold_no_clash:
  "\<not> keyword_clash sfr_keywords [''threshold'' \<mapsto> v]"
  "\<not> keyword_clash smhm_keywords [''threshold'' \<mapsto> v]"
  by (simp_all add: keyword_clash_def sfr_keywords_def smhm_keywords_def)

lemma selection_of_threshold:
  "kw ''threshold'' = Some T \<Longrightarrow>
   galaxy_selection_func (factory_args_of kw sm_model sfr_model) = Some (selection_lambda kw)"
  by (simp add: factory_args_of_def)

lemma selection_lambda_num:
  "kw ''threshold'' = Some T \<Longrightarrow> py_num T = Some t \<Longrightarrow> x ''stellar_mass'' = Some v \<Longrightarrow>
   selection_lambda kw x = Inr (number_gt v t)"
  by (simp add: selection_lambda_def py_gt_def)

lemma applied_threshold:
  "applied_predicate (fst (SmHmBinarySFR stub_env (call_with [''threshold'' \<mapsto> T]))) x =
     Some (selection_lambda [''threshold'' \<mapsto> T] x)"
  by (subst SmHmBinarySFR_built [OF stub_built [OF threshold_no_clash]])
     (simp add: applied_predicate_def factory_args_of_def call_with_def)

lemma numeric_value: "numeric T \<Longrightarrow> \<exists>t. py_num T = Some t"
  by (cases T) simp_all

lemma numeric_float: "numeric (PFloat f) \<Longrightarrow> f = Fin q \<Longrightarrow> is_double q"
  by simp

lemma minus_one_below:
  assumes num: "numeric T" and t: "py_num T = Some t"
  shows "\<exists>Tlo lo. py_minus_one T = Inr Tlo \<and> py_num Tlo = Some lo \<and> \<not> number_gt lo t"
proof (cases T)
  case (PInt i)
  with t show ?thesis by auto
next
  case (PBool b)
  with t show ?thesis by auto
next
  case (PFloat f)
  have "\<not> number_gt (float_add f (Fin (- 1))) f"
    by (rule float_minus_one_below) (rule numeric_float [OF num [unfolded PFloat]])
  with t PFloat show ?thesis by simp
qed (use num in simp_all)

lemma plus_one_above:
  assumes num: "numeric T" and t: "py_num T = Some t"
  shows "\<exists>Thi hi. py_plus_one T = Inr Thi \<and> py_num Thi = Some hi \<and>
           number_gt hi t = (hi \<noteq> t) \<and> ((\<forall>f. T \<noteq> PFloat f) \<longrightarrow> number_gt hi t)"
proof (cases T)
  case (PInt i)
  with t show ?thesis by auto
next
  case (PBool b)
  with t show ?thesis by auto
next
  case (PFloat f)
  have "number_gt (float_add f (Fin 1)) f = (float_add f (Fin 1) \<noteq> f)"
    by (rule float_plus_one_above) (rule numeric_float [OF num [unfolded PFloat]])
  with t PFloat show ?thesis by simp
qed (use num in simp_all)

text \<open>
  The claim C2 as it is stated, that for every numeric \<open>T\<close> the predicate is true on a record
  whose stellar mass equals \<^verbatim>\<open>T + 1\<close>, fails for floats that absorb the \<open>1\<close>. With
  \<^verbatim>\<open>T = 2.0 ** 53\<close> (the float \<open>9007199254740992\<close>) the sum \<^verbatim>\<open>T + 1\<close> is rounded back to \<open>T\<close>,
  and with \<^verbatim>\<open>T = float('inf')\<close> it is \<open>T\<close> again; the strict comparison then rejects the
  record.
\<close>

theorem threshold_plus_one_absorbed_counterexample:
  "numeric (PFloat (Fin 9007199254740992)) \<and>
   py_plus_one (PFloat (Fin 9007199254740992)) = Inr (PFloat (Fin 9007199254740992)) \<and>
   applied_predicate
     (fst (SmHmBinarySFR stub_env (call_with [''threshold'' \<mapsto> PFloat (Fin 9007199254740992)])))
     [''stellar_mass'' \<mapsto> Fin 9007199254740992] = Some (Inr False) \<and>
   numeric (PFloat PInf) \<and>
   py_plus_one (PFloat PInf) = Inr (PFloat PInf) \<and>
   applied_predicate (fst (SmHmBinarySFR stub_env (call_with [''threshold'' \<mapsto> PFloat PInf])))
     [''stellar_mass'' \<mapsto> PInf] = Some (Inr False)"
proof -
  have a: "numeric (PFloat (Fin 9007199254740992))"
    by (simp add: is_double_2_53)
  have b: "py_plus_one (PFloat (Fin 9007199254740992)) = Inr (PFloat (Fin 9007199254740992))"
    by (simp only: py_plus_one.simps float_add_2_53)
  have c: "applied_predicate
      (fst (SmHmBinarySFR stub_env (call_with [''threshold'' \<mapsto> PFloat (Fin 9007199254740992)])))
      [''stellar_mass'' \<mapsto> Fin 9007199254740992] = Some (Inr False)"
    by (simp add: applied_threshold selection_lambda_def py_gt_def)
  have d: "numeric (PFloat PInf)"
    by simp
  have e: "py_plus_one (PFloat PInf) = Inr (PFloat PInf)"
    by simp
  have f: "applied_predicate (fst (SmHmBinarySFR stub_env (call_with [''threshold'' \<mapsto> PFloat PInf])))
      [''stellar_mass'' \<mapsto> PInf] = Some (Inr False)"
    by (simp add: applied_threshold selection_lambda_def py_gt_def)
  show ?thesis
    by (intro conjI a b c d e f)
qed

text \<open>
  C2, amended. For a numeric threshold \<open>T\<close> of value \<open>t\<close>, the composite model is constructed
  with a selection predicate that answers Python's \<^verbatim>\<open>stellar_mass > T\<close>: on every galaxy
  record with a stellar mass \<open>v\<close> it returns the strict comparison of \<open>v\<close> with \<open>t\<close>. It
  rejects a record whose stellar mass is \<^verbatim>\<open>T - 1\<close> and, being strict, one whose stellar mass
  is \<open>T\<close> itself. A record whose stellar mass is \<^verbatim>\<open>T + 1\<close> is accepted exactly when \<^verbatim>\<open>T + 1\<close>
  is another value than \<open>T\<close>: always for an \<^verbatim>\<open>int\<close> or \<^verbatim>\<open>bool\<close>, and for a float unless the sum
  is rounded back to \<open>T\<close> or \<open>T\<close> is an infinity or \<^verbatim>\<open>nan\<close>.
\<close>

theorem threshold_predicate_greater_than:
  assumes built: "submodels_built env p sfr_model sm_model"
      and thr: "kwargs p ''threshold'' = Some T"
      and num: "numeric T"
  shows "\<exists>fa pred t Tlo lo Thi hi.
           SmHmBinarySFR env p =
             ([SfrCall (sfr_args_of env p),
               SmhmCall (bound_smhm_model env p) (smhm_args_of env p),
               FactoryCall fa], SubhaloModelFactory env fa) \<and>
           galaxy_selection_func fa = Some pred \<and>
           py_num T = Some t \<and>
           (\<forall>x v. x ''stellar_mass'' = Some v \<longrightarrow> pred x = Inr (number_gt v t)) \<and>
           py_minus_one T = Inr Tlo \<and> py_num Tlo = Some lo \<and>
           (\<forall>x. x ''stellar_mass'' = Some lo \<longrightarrow> pred x = Inr False) \<and>
           (\<forall>x. x ''stellar_mass'' = Some t \<longrightarrow> pred x = Inr False) \<and>
           py_plus_one T = Inr Thi \<and> py_num Thi = Some hi \<and>
           (\<forall>x. x ''stellar_mass'' = Some hi \<longrightarrow> pred x = Inr (hi \<noteq> t)) \<and>
           ((\<forall>f. T \<noteq> PFloat f) \<longrightarrow>
              (\<forall>x. x ''stellar_mass'' = Some hi \<longrightarrow> pred x = Inr True))"
proof -
  let ?fa = "factory_args_of (kwargs p) sm_model sfr_model"
  let ?pred = "selection_lambda (kwargs p)"
  from numeric_value [OF num] obtain t where t: "py_num T = Some t" ..
  from minus_one_below [OF num t] obtain Tlo lo
    where Tlo: "py_minus_one T = Inr Tlo" and lo: "py_num Tlo = Some lo"
      and lo_t: "\<not> number_gt lo t"
    by (elim exE conjE)
  from plus_one_above [OF num t] obtain Thi hi
    where Thi: "py_plus_one T = Inr Thi" and hi: "py_num Thi = Some hi"
      and hi_t: "number_gt hi t = (hi \<noteq> t)"
      and int_hi: "(\<forall>f. T \<noteq> PFloat f) \<longrightarrow> number_gt hi t"
    by (elim exE conjE)
  have run: "SmHmBinarySFR env p =
      ([SfrCall (sfr_args_of env p), SmhmCall (bound_smhm_model env p) (smhm_args_of env p),
        FactoryCall ?fa], SubhaloModelFactory env ?fa)"
    by (rule SmHmBinarySFR_built [OF built])
  have att: "galaxy_selection_func ?fa = Some ?pred"
    using thr by (simp add: selection_of_threshold)
  have gt: "\<forall>x v. x ''stellar_mass'' = Some v \<longrightarrow> ?pred x = Inr (number_gt v t)"
    using thr t by (simp add: selection_lambda_num)
  have below: "\<forall>x. x ''stellar_mass'' = Some lo \<longrightarrow> ?pred x = Inr False"
    using thr t lo_t by (simp add: selection_lambda_num)
  have at: "\<forall>x. x ''stellar_mass'' = Some t \<longrightarrow> ?pred x = Inr False"
    using thr t by (simp add: selection_lambda_num)
  have above: "\<forall>x. x ''stellar_mass'' = Some hi \<longrightarrow> ?pred x = Inr (hi \<noteq> t)"
    using thr t hi_t by (simp add: selection_lambda_num)
  have int_above: "(\<forall>f. T \<noteq> PFloat f) \<longrightarrow>
      (\<forall>x. x ''stellar_mass'' = Some hi \<longrightarrow> ?pred x = Inr True)"
    using thr t int_hi by (simp add: selection_lambda_num)
  show ?thesis
    by (rule exI [of _ ?fa], rule exI [of _ ?pred], rule exI [of _ t], rule exI [of _ Tlo],
        rule exI [of _ lo], rule exI [of _ Thi], rule exI [of _ hi])
       (intro conjI run att t gt Tlo lo below at Thi hi above int_above)
qed

theorem threshold_predicate_greater_than_witness:
  "\<exists>fa pred.
     fst (SmHmBinarySFR stub_env (call_with [''threshold'' \<mapsto> PFloat (Fin (21 / 2))])) =
       [SfrCall (sfr_args_of stub_env (call_with [''threshold'' \<mapsto> PFloat (Fin (21 / 2))])),
        SmhmCall stub_smhm_model
          (smhm_args_of stub_env (call_with [''threshold'' \<mapsto> PFloat (Fin (21 / 2))])),
        FactoryCall fa] \<and>
     galaxy_selection_func fa = Some pred \<and>
     pred [''stellar_mass'' \<mapsto> Fin (19 / 2)] = Inr False \<and>
     pred [''stellar_mass'' \<mapsto> Fin (23 / 2)] = Inr True \<and>
     pred [''stellar_mass'' \<mapsto> Fin (21 / 2)] = Inr False"
proof -
  let ?T = "PFloat (Fin (21 / 2))"
  let ?p = "call_with [''threshold'' \<mapsto> ?T]"
  have built: "submodels_built stub_env ?p (Component ''quiescent'' 0) (Component ''stellar_mass'' 1)"
    by (rule stub_built [OF threshold_no_clash])
  have thr: "kwargs ?p ''threshold'' = Some ?T"
    by (simp add: call_with_def)
  have num: "numeric ?T"
    by (simp add: is_double_21_2)
  have smhm: "bound_smhm_model stub_env ?p = stub_smhm_model"
    by (simp add: bound_smhm_model_def the_default_def call_with_def stub_env_def)
  have minus: "py_minus_one ?T = Inr (PFloat (Fin (19 / 2)))"
    by (simp only: py_minus_one.simps float_add_21_2)
  have plus: "py_plus_one ?T = Inr (PFloat (Fin (23 / 2)))"
    by (simp only: py_plus_one.simps float_add_21_2)
  from threshold_predicate_greater_than [OF built thr num]
  obtain fa pred t Tlo lo Thi hi where run:
      "SmHmBinarySFR stub_env ?p =
         ([SfrCall (sfr_args_of stub_env ?p),
           SmhmCall (bound_smhm_model stub_env ?p) (smhm_args_of stub_env ?p),
           FactoryCall fa], SubhaloModelFactory stub_env fa)"
    and att: "galaxy_selection_func fa = Some pred"
    and t: "py_num ?T = Some t"
    and Tlo: "py_minus_one ?T = Inr Tlo" and lo: "py_num Tlo = Some lo"
    and below: "\<forall>x. x ''stellar_mass'' = Some lo \<longrightarrow> pred x = Inr False"
    and at: "\<forall>x. x ''stellar_mass'' = Some t \<longrightarrow> pred x = Inr False"
    and Thi: "py_plus_one ?T = Inr Thi" and hi: "py_num Thi = Some hi"
    and above: "\<forall>x. x ''stellar_mass'' = Some hi \<longrightarrow> pred x = Inr (hi \<noteq> t)"
    by (elim exE conjE)
  have t': "t = Fin (21 / 2)"
    using t by simp
  have "Tlo = PFloat (Fin (19 / 2))"
    using Tlo unfolding minus by simp
  with lo have lo': "lo = Fin (19 / 2)"
    by simp
  have "Thi = PFloat (Fin (23 / 2))"
    using Thi unfolding plus by simp
  with hi have hi': "hi = Fin (23 / 2)"
    by simp
  have b: "pred [''stellar_mass'' \<mapsto> Fin (19 / 2)] = Inr False"
    using below by (simp add: lo')
  have a: "pred [''stellar_mass'' \<mapsto> Fin (23 / 2)] = Inr True"
    using above by (simp add: hi' t')
  have e: "pred [''stellar_mass'' \<mapsto> Fin (21 / 2)] = Inr False"
    using at by (simp add: t')
  show ?thesis
    by (rule exI [of _ fa], rule exI [of _ pred]) (simp add: run smhm att b a e)
qed

lemma selection_absent:
  "kw ''threshold'' = None \<Longrightarrow>
   galaxy_selection_func (factory_args_of kw sm_model sfr_model) = None"
  by (simp add: factory_args_of_def)

lemma selection_present_iff:
  "(galaxy_selection_func (factory_args_of kw sm_model sfr_model) \<noteq> None) =
   (kw ''threshold'' \<noteq> None)"
  by (simp add: factory_args_of_def)

lemma no_threshold_no_predicate_attached:
  "kwargs p ''threshold'' = None \<Longrightarrow> \<not> predicate_attached (fst (SmHmBinarySFR env p))"
  by (simp add: SmHmBinarySFR_def predicate_attached_def factory_args_of_def
      split: sum.splits)

text \<open>
  C3. In a call whose threshold option is absent (the keyword options hold no
  \<^verbatim>\<open>threshold\<close>), no selection predicate is attached: no factory call of the run carries
  one, and when both sub-models are constructed the factory is called once, with the
  blueprint alone.
\<close>

theorem absent_threshold_blueprint_alone:
  assumes absent: "kwargs p ''threshold'' = None"
  shows "\<not> predicate_attached (fst (SmHmBinarySFR env p)) \<and>
         (\<forall>sfr_model sm_model. submodels_built env p sfr_model sm_model \<longrightarrow>
            (\<exists>fa. SmHmBinarySFR env p =
                     ([SfrCall (sfr_args_of env p),
                       SmhmCall (bound_smhm_model env p) (smhm_args_of env p),
                       FactoryCall fa], SubhaloModelFactory env fa) \<and>
                  blueprint fa = blueprint_of sm_model sfr_model \<and>
                  galaxy_selection_func fa = None))"
proof (intro conjI allI impI)
  show "\<not> predicate_attached (fst (SmHmBinarySFR env p))"
    by (rule no_threshold_no_predicate_attached [OF absent])
next
  fix sfr_model sm_model
  assume built: "submodels_built env p sfr_model sm_model"
  let ?fa = "factory_args_of (kwargs p) sm_model sfr_model"
  have run: "SmHmBinarySFR env p =
      ([SfrCall (sfr_args_of env p), SmhmCall (bound_smhm_model env p) (smhm_args_of env p),
        FactoryCall ?fa], SubhaloModelFactory env ?fa)"
    by (rule SmHmBinarySFR_built [OF built])
  have bp: "blueprint ?fa = blueprint_of sm_model sfr_model"
    by simp
  have none: "galaxy_selection_func ?fa = None"
    using absent by (simp add: selection_absent)
  show "\<exists>fa. SmHmBinarySFR env p =
                ([SfrCall (sfr_args_of env p),
                  SmhmCall (bound_smhm_model env p) (smhm_args_of env p),
                  FactoryCall fa], SubhaloModelFactory env fa) \<and>
             blueprint fa = blueprint_of sm_model sfr_model \<and>
             galaxy_selection_func fa = None"
    by (rule exI [of _ ?fa]) (intro conjI run bp none)
qed

theorem absent_threshold_blueprint_alone_witness:
  "\<not> predicate_attached (fst (SmHmBinarySFR stub_env (call_with Map.empty))) \<and>
   (\<exists>fa. fst (SmHmBinarySFR stub_env (call_with Map.empty)) =
           [SfrCall (sfr_args_of stub_env (call_with Map.empty)),
            SmhmCall stub_smhm_model (smhm_args_of stub_env (call_with Map.empty)),
            FactoryCall fa] \<and>
         blueprint fa =
           blueprint_of (Component ''stellar_mass'' 1) (Component ''quiescent'' 0) \<and>
         galaxy_selection_func fa = None)"
proof -
  let ?p = "call_with Map.empty"
  have absent: "kwargs ?p ''threshold'' = None"
    by (simp add: call_with_def)
  have smhm: "bound_smhm_model stub_env ?p = stub_smhm_model"
    by (simp add: bound_smhm_model_def the_default_def call_with_def stub_env_def)
  note inst = absent_threshold_blueprint_alone [OF absent, of stub_env]
  from inst have quiet: "\<not> predicate_attached (fst (SmHmBinarySFR stub_env ?p))"
    by (rule conjunct1)
  from inst stub_default_built
  obtain fa where run:
      "SmHmBinarySFR stub_env ?p =
         ([SfrCall (sfr_args_of stub_env ?p),
           SmhmCall (bound_smhm_model stub_env ?p) (smhm_args_of stub_env ?p),
           FactoryCall fa], SubhaloModelFactory stub_env fa)"
    and bp: "blueprint fa =
        blueprint_of (Component ''stellar_mass'' 1) (Component ''quiescent'' 0)"
    and none: "galaxy_selection_func fa = None"
    by blast
  have "\<exists>fa. fst (SmHmBinarySFR stub_env ?p) =
           [SfrCall (sfr_args_of stub_env ?p),
            SmhmCall stub_smhm_model (smhm_args_of stub_env ?p), FactoryCall fa] \<and>
         blueprint fa =
           blueprint_of (Component ''stellar_mass'' 1) (Component ''quiescent'' 0) \<and>
         galaxy_selection_func fa = None"
    by (rule exI [of _ fa]) (simp add: run smhm bp none)
  with quiet show ?thesis ..
qed

text \<open>
  C4. Whether a predicate is attached depends on the presence of the key
  \<^verbatim>\<open>threshold\<close> among the keyword options and not on its value: with \<^verbatim>\<open>threshold=None\<close>
  passed explicitly, the factory still receives a predicate, which looks up the galaxy's
  \<^verbatim>\<open>stellar_mass\<close> and compares it with \<^verbatim>\<open>None\<close>.
\<close>

theorem predicate_attached_on_key_presence:
  assumes built: "submodels_built env p sfr_model sm_model"
  shows "\<exists>fa. SmHmBinarySFR env p =
                 ([SfrCall (sfr_args_of env p),
                   SmhmCall (bound_smhm_model env p) (smhm_args_of env p),
                   FactoryCall fa], SubhaloModelFactory env fa) \<and>
              ((galaxy_selection_func fa \<noteq> None) = (kwargs p ''threshold'' \<noteq> None)) \<and>
              (kwargs p ''threshold'' = Some PNone \<longrightarrow>
                 (\<exists>pred. galaxy_selection_func fa = Some pred \<and>
                    (\<forall>x. x ''stellar_mass'' = None \<longrightarrow> pred x = Inl KeyError) \<and>
                    (\<forall>x v. x ''stellar_mass'' = Some v \<longrightarrow> pred x = py_gt v PNone)))"
proof -
  let ?fa = "factory_args_of (kwargs p) sm_model sfr_model"
  have run: "SmHmBinarySFR env p =
      ([SfrCall (sfr_args_of env p), SmhmCall (bound_smhm_model env p) (smhm_args_of env p),
        FactoryCall ?fa], SubhaloModelFactory env ?fa)"
    by (rule SmHmBinarySFR_built [OF built])
  have iff: "(galaxy_selection_func ?fa \<noteq> None) = (kwargs p ''threshold'' \<noteq> None)"
    by (rule selection_present_iff)
  have none: "kwargs p ''threshold'' = Some PNone \<longrightarrow>
      (\<exists>pred. galaxy_selection_func ?fa = Some pred \<and>
         (\<forall>x. x ''stellar_mass'' = None \<longrightarrow> pred x = Inl KeyError) \<and>
         (\<forall>x v. x ''stellar_mass'' = Some v \<longrightarrow> pred x = py_gt v PNone))"
  proof
    assume thr: "kwargs p ''threshold'' = Some PNone"
    have "galaxy_selection_func ?fa = Some (selection_lambda (kwargs p))"
      using thr by (simp add: selection_of_threshold)
    moreover have "\<forall>x. x ''stellar_mass'' = None \<longrightarrow> selection_lambda (kwargs p) x = Inl KeyError"
      by (simp add: selection_lambda_def)
    moreover have "\<forall>x v. x ''stellar_mass'' = Some v \<longrightarrow>
        selection_lambda (kwargs p) x = py_gt v PNone"
      using thr by (simp add: selection_lambda_def)
    ultimately show "\<exists>pred. galaxy_selection_func ?fa = Some pred \<and>
         (\<forall>x. x ''stellar_mass'' = None \<longrightarrow> pred x = Inl KeyError) \<and>
         (\<forall>x v. x ''stellar_mass'' = Some v \<longrightarrow> pred x = py_gt v PNone)"
      by (intro exI [of _ "selection_lambda (kwargs p)"] conjI)
  qed
  show ?thesis
    by (rule exI [of _ ?fa]) (intro conjI run iff none)
qed

theorem predicate_attached_on_key_presence_witness:
  "\<exists>fa pred.
     fst (SmHmBinarySFR stub_env (call_with [''threshold'' \<mapsto> PNone])) =
       [SfrCall (sfr_args_of stub_env (call_with [''threshold'' \<mapsto> PNone])),
        SmhmCall stub_smhm_model (smhm_args_of stub_env (call_with [''threshold'' \<mapsto> PNone])),
        FactoryCall fa] \<and>
     galaxy_selection_func fa = Some pred \<and>
     pred [''stellar_mass'' \<mapsto> Fin 5] = py_gt (Fin 5) PNone \<and>
     pred Map.empty = Inl KeyError"
proof -
  let ?p = "call_with [''threshold'' \<mapsto> PNone]"
  have built: "submodels_built stub_env ?p (Component ''quiescent'' 0) (Component ''stellar_mass'' 1)"
    by (rule stub_built [OF threshold_no_clash])
  have thr: "kwargs ?p ''threshold'' = Some PNone"
    by (simp add: call_with_def)
  have smhm: "bound_smhm_model stub_env ?p = stub_smhm_model"
    by (simp add: bound_smhm_model_def the_default_def call_with_def stub_env_def)
  from predicate_attached_on_key_presence [OF built]
  obtain fa where run:
      "SmHmBinarySFR stub_env ?p =
         ([SfrCall (sfr_args_of stub_env ?p),
           SmhmCall (bound_smhm_model stub_env ?p) (smhm_args_of stub_env ?p),
           FactoryCall fa], SubhaloModelFactory stub_env fa)"
    and none: "kwargs ?p ''threshold'' = Some PNone \<longrightarrow>
      (\<exists>pred. galaxy_selection_func fa = Some pred \<and>
         (\<forall>x. x ''stellar_mass'' = None \<longrightarrow> pred x = Inl KeyError) \<and>
         (\<forall>x v. x ''stellar_mass'' = Some v \<longrightarrow> pred x = py_gt v PNone))"
    by (elim exE conjE)
  from none thr obtain pred where att: "galaxy_selection_func fa = Some pred"
    and missing: "\<forall>x. x ''stellar_mass'' = None \<longrightarrow> pred x = Inl KeyError"
    and cmp: "\<forall>x v. x ''stellar_mass'' = Some v \<longrightarrow> pred x = py_gt v PNone"
    by (elim impE exE conjE) assumption
  have a: "pred [''stellar_mass'' \<mapsto> Fin 5] = py_gt (Fin 5) PNone"
    using cmp by simp
  have b: "pred Map.empty = Inl KeyError"
    using missing by simp
  show ?thesis
    by (rule exI [of _ fa], rule exI [of _ pred]) (simp add: run smhm att a b)
qed

text \<open>
  The two calls side by side: \<^verbatim>\<open>SmHmBinarySFR(threshold=None)\<close> attaches a predicate,
  \<^verbatim>\<open>SmHmBinarySFR()\<close> attaches none.
\<close>

lemma explicit_None_is_not_absent:
  "predicate_attached (fst (SmHmBinarySFR stub_env (call_with [''threshold'' \<mapsto> PNone]))) \<and>
   \<not> predicate_attached (fst (SmHmBinarySFR stub_env (call_with Map.empty)))"
proof -
  have b1: "submodels_built stub_env (call_with [''threshold'' \<mapsto> PNone])
              (Component ''quiescent'' 0) (Component ''stellar_mass'' 1)"
    by (rule stub_built [OF threshold_no_clash])
  have "predicate_attached (fst (SmHmBinarySFR stub_env (call_with [''threshold'' \<mapsto> PNone])))"
    by (subst SmHmBinarySFR_built [OF b1])
       (simp add: predicate_attached_def call_with_def factory_args_of_def)
  moreover have "\<not> predicate_attached (fst (SmHmBinarySFR stub_env (call_with Map.empty)))"
    by (subst SmHmBinarySFR_built [OF stub_default_built])
       (simp add: predicate_attached_def call_with_def factory_args_of_def)
  ultimately show ?thesis ..
qed

section \<open>Colliding property names\<close>

lemma blueprint_of_collision:
  "galprop_name sm_model = galprop_name sfr_model \<Longrightarrow>
   blueprint_of sm_model sfr_model = [galprop_name sfr_model \<mapsto> sfr_model]"
  by (simp add: blueprint_of_def)

lemma custom_built:
  assumes "\<not> keyword_clash sfr_keywords kw" and "\<not> keyword_clash smhm_keywords kw"
      and "f (smhm_args_of stub_env (custom_call f kw)) = Inr sm_model"
  shows "submodels_built stub_env (custom_call f kw) (Component ''quiescent'' 0) sm_model"
  using assms
  by (simp add: submodels_built_def stub_env_def custom_call_def sfr_args_of_def
      bound_sfr_abcissa_def bound_sfr_ordinates_def the_default_def stub_sfr_model_def
      bound_smhm_model_def)

lemma empty_no_clash:
  "\<not> keyword_clash sfr_keywords Map.empty" "\<not> keyword_clash smhm_keywords Map.empty"
  by (simp_all add: keyword_clash_def sfr_keywords_def smhm_keywords_def)

lemma quiescent_named_built:
  "submodels_built stub_env (custom_call quiescent_named_model Map.empty)
     (Component ''quiescent'' 0) (Component ''quiescent'' 2)"
  by (rule custom_built [OF empty_no_clash]) (simp add: quiescent_named_model_def)

text \<open>
  The claim C5 as it is stated, that under one shared name the stellar-mass sub-model (the
  second one constructed) takes the SFR sub-model's place, fails: with a custom
  stellar-mass model that declares \<^verbatim>\<open>quiescent\<close>, the blueprint's only entry is the SFR
  sub-model.
\<close>

theorem collision_second_overwrites_counterexample:
  "bound_smhm_model stub_env (custom_call quiescent_named_model Map.empty)
     (smhm_args_of stub_env (custom_call quiescent_named_model Map.empty)) =
       Inr (Component ''quiescent'' 2) \<and>
   BinaryGalpropInterpolModel stub_env
     (sfr_args_of stub_env (custom_call quiescent_named_model Map.empty)) =
       Inr (Component ''quiescent'' 0) \<and>
   blueprint_entry (fst (SmHmBinarySFR stub_env (custom_call quiescent_named_model Map.empty)))
     ''quiescent'' = Some (Component ''quiescent'' 0) \<and>
   blueprint_entry (fst (SmHmBinarySFR stub_env (custom_call quiescent_named_model Map.empty)))
     ''quiescent'' \<noteq> Some (Component ''quiescent'' 2)"
proof -
  have entry: "blueprint_entry
      (fst (SmHmBinarySFR stub_env (custom_call quiescent_named_model Map.empty)))
      ''quiescent'' = Some (Component ''quiescent'' 0)"
    by (subst SmHmBinarySFR_built [OF quiescent_named_built])
       (simp add: blueprint_entry_def blueprint_of_def)
  show ?thesis
    using quiescent_named_built by (simp add: entry submodels_built_def)
qed

text \<open>
  C5, amended. When the two constructed sub-models declare the same property name, the
  blueprint holds exactly one entry under that name, and it is the SFR sub-model: the
  dictionary display of line 111 lists it last, so it replaces the stellar-mass sub-model,
  which is dropped without an error.
\<close>

theorem collision_keeps_sfr_model:
  assumes built: "submodels_built env p sfr_model sm_model"
      and same: "galprop_name sm_model = galprop_name sfr_model"
  shows "\<exists>fa. SmHmBinarySFR env p =
                 ([SfrCall (sfr_args_of env p),
                   SmhmCall (bound_smhm_model env p) (smhm_args_of env p),
                   FactoryCall fa], SubhaloModelFactory env fa) \<and>
              dom (blueprint fa) = {galprop_name sfr_model} \<and>
              card (dom (blueprint fa)) = 1 \<and>
              blueprint fa (galprop_name sfr_model) = Some sfr_model \<and>
              (sm_model \<noteq> sfr_model \<longrightarrow> sm_model \<notin> ran (blueprint fa))"
proof -
  let ?fa = "factory_args_of (kwargs p) sm_model sfr_model"
  have run: "SmHmBinarySFR env p =
      ([SfrCall (sfr_args_of env p), SmhmCall (bound_smhm_model env p) (smhm_args_of env p),
        FactoryCall ?fa], SubhaloModelFactory env ?fa)"
    by (rule SmHmBinarySFR_built [OF built])
  have d: "dom (blueprint ?fa) = {galprop_name sfr_model}"
    using same by (simp add: blueprint_of_collision)
  have c: "card (dom (blueprint ?fa)) = 1"
    using same by (simp add: blueprint_of_collision)
  have e: "blueprint ?fa (galprop_name sfr_model) = Some sfr_model"
    using same by (simp add: blueprint_of_collision)
  have dropped: "sm_model \<noteq> sfr_model \<longrightarrow> sm_model \<notin> ran (blueprint ?fa)"
    using same by (simp add: blueprint_of_collision)
  show ?thesis
    by (rule exI [of _ ?fa]) (intro conjI run d c e dropped)
qed

theorem collision_keeps_sfr_model_witness:
  "\<exists>fa. fst (SmHmBinarySFR stub_env (custom_call quiescent_named_model Map.empty)) =
          [SfrCall (sfr_args_of stub_env (custom_call quiescent_named_model Map.empty)),
           SmhmCall quiescent_named_model
             (smhm_args_of stub_env (custom_call quiescent_named_model Map.empty)),
           FactoryCall fa] \<and>
        dom (blueprint fa) = {''quiescent''} \<and>
        card (dom (blueprint fa)) = 1 \<and>
        blueprint fa ''quiescent'' = Some (Component ''quiescent'' 0) \<and>
        Component ''quiescent'' 2 \<notin> ran (blueprint fa)"
proof -
  let ?p = "custom_call quiescent_named_model Map.empty"
  have same: "galprop_name (Component ''quiescent'' (2::nat)) =
              galprop_name (Component ''quiescent'' (0::nat))"
    by simp
  have smhm: "bound_smhm_model stub_env ?p = quiescent_named_model"
    by (simp add: bound_smhm_model_def the_default_def custom_call_def)
  from collision_keeps_sfr_model [OF quiescent_named_built same]
  obtain fa where run:
      "SmHmBinarySFR stub_env ?p =
         ([SfrCall (sfr_args_of stub_env ?p),
           SmhmCall (bound_smhm_model stub_env ?p) (smhm_args_of stub_env ?p),
           FactoryCall fa], SubhaloModelFactory stub_env fa)"
    and d: "dom (blueprint fa) = {galprop_name (Component ''quiescent'' (0::nat))}"
    and c: "card (dom (blueprint fa)) = 1"
    and e: "blueprint fa (galprop_name (Component ''quiescent'' (0::nat))) =
              Some (Component ''quiescent'' 0)"
    and dropped: "Component ''quiescent'' (2::nat) \<noteq> Component ''quiescent'' 0 \<longrightarrow>
              Component ''quiescent'' 2 \<notin> ran (blueprint fa)"
    by (elim exE conjE)
  have gone: "Component ''quiescent'' 2 \<notin> ran (blueprint fa)"
    using dropped by simp
  show ?thesis
    by (rule exI [of _ fa]) (use d e in \<open>simp add: run smhm c gone\<close>)
qed

section \<open>The key the predicate reads\<close>

lemma mstar_threshold_built:
  "submodels_built stub_env (custom_call mstar_model [''threshold'' \<mapsto> PInt 10])
     (Component ''quiescent'' 0) (Component ''mstar'' 2)"
  by (rule custom_built [OF threshold_no_clash]) (simp add: mstar_model_def)

lemma selection_lambda_reads_stellar_mass:
  "x ''stellar_mass'' = y ''stellar_mass'' \<Longrightarrow> selection_lambda kw x = selection_lambda kw y"
  by (simp add: selection_lambda_def)

lemma selection_lambda_missing:
  "x ''stellar_mass'' = None \<Longrightarrow> selection_lambda kw x = Inl KeyError"
  by (simp add: selection_lambda_def)

text \<open>
  C9. When a threshold \<open>T\<close> is attached, the predicate reads the galaxy record under the
  fixed key \<^verbatim>\<open>stellar_mass\<close>, and only there: a record that holds \<open>v\<close> under that key gets
  the answer of \<^verbatim>\<open>v > T\<close>, records that agree there get the same answer, and a record
  without that key raises \<^verbatim>\<open>KeyError\<close>. The blueprint, however, files the stellar-mass
  sub-model under the name that sub-model declares. For a sub-model whose declared name is
  not \<^verbatim>\<open>stellar_mass\<close> the two keys disagree: the predicate ignores the column of that
  name, and (unless the SFR sub-model takes the name) the blueprint has no entry
  \<^verbatim>\<open>stellar_mass\<close>.
\<close>

theorem predicate_key_is_fixed:
  assumes built: "submodels_built env p sfr_model sm_model"
      and thr: "kwargs p ''threshold'' = Some T"
  shows "\<exists>fa pred.
           SmHmBinarySFR env p =
             ([SfrCall (sfr_args_of env p),
               SmhmCall (bound_smhm_model env p) (smhm_args_of env p),
               FactoryCall fa], SubhaloModelFactory env fa) \<and>
           galaxy_selection_func fa = Some pred \<and>
           (\<forall>x v. x ''stellar_mass'' = Some v \<longrightarrow> pred x = py_gt v T) \<and>
           (\<forall>x y. x ''stellar_mass'' = y ''stellar_mass'' \<longrightarrow> pred x = pred y) \<and>
           (\<forall>x. x ''stellar_mass'' = None \<longrightarrow> pred x = Inl KeyError) \<and>
           blueprint fa (galprop_name sm_model) \<noteq> None \<and>
           (galprop_name sm_model \<noteq> ''stellar_mass'' \<longrightarrow>
              (\<forall>x v. pred (x(galprop_name sm_model \<mapsto> v)) = pred x) \<and>
              (galprop_name sfr_model \<noteq> ''stellar_mass'' \<longrightarrow>
                 blueprint fa ''stellar_mass'' = None))"
proof -
  let ?fa = "factory_args_of (kwargs p) sm_model sfr_model"
  let ?pred = "selection_lambda (kwargs p)"
  have run: "SmHmBinarySFR env p =
      ([SfrCall (sfr_args_of env p), SmhmCall (bound_smhm_model env p) (smhm_args_of env p),
        FactoryCall ?fa], SubhaloModelFactory env ?fa)"
    by (rule SmHmBinarySFR_built [OF built])
  have att: "galaxy_selection_func ?fa = Some ?pred"
    using thr by (simp add: selection_of_threshold)
  have answer: "\<forall>x v. x ''stellar_mass'' = Some v \<longrightarrow> ?pred x = py_gt v T"
    using thr by (simp add: selection_lambda_def)
  have reads: "\<forall>x y. x ''stellar_mass'' = y ''stellar_mass'' \<longrightarrow> ?pred x = ?pred y"
    by (simp add: selection_lambda_def)
  have missing: "\<forall>x. x ''stellar_mass'' = None \<longrightarrow> ?pred x = Inl KeyError"
    by (simp add: selection_lambda_def)
  have key: "blueprint ?fa (galprop_name sm_model) \<noteq> None"
    by (simp add: blueprint_of_def)
  have disagree: "galprop_name sm_model \<noteq> ''stellar_mass'' \<longrightarrow>
      (\<forall>x v. ?pred (x(galprop_name sm_model \<mapsto> v)) = ?pred x) \<and>
      (galprop_name sfr_model \<noteq> ''stellar_mass'' \<longrightarrow> blueprint ?fa ''stellar_mass'' = None)"
    by (simp add: selection_lambda_def blueprint_of_def)
  show ?thesis
    by (rule exI [of _ ?fa], rule exI [of _ ?pred])
       (intro conjI run att answer reads missing key disagree)
qed

theorem predicate_key_is_fixed_witness:
  "\<exists>fa pred.
     fst (SmHmBinarySFR stub_env (custom_call mstar_model [''threshold'' \<mapsto> PInt 10])) =
       [SfrCall (sfr_args_of stub_env (custom_call mstar_model [''threshold'' \<mapsto> PInt 10])),
        SmhmCall mstar_model
          (smhm_args_of stub_env (custom_call mstar_model [''threshold'' \<mapsto> PInt 10])),
        FactoryCall fa] \<and>
     galaxy_selection_func fa = Some pred \<and>
     blueprint fa ''mstar'' \<noteq> None \<and>
     blueprint fa ''stellar_mass'' = None \<and>
     pred [''stellar_mass'' \<mapsto> Fin 11] = Inr True \<and>
     pred [''stellar_mass'' \<mapsto> Fin 9] = Inr False \<and>
     pred [''mstar'' \<mapsto> Fin 11] = Inl KeyError \<and>
     pred [''stellar_mass'' \<mapsto> Fin 9, ''mstar'' \<mapsto> Fin 11] = Inr False"
proof -
  let ?p = "custom_call mstar_model [''threshold'' \<mapsto> PInt 10]"
  have thr: "kwargs ?p ''threshold'' = Some (PInt 10)"
    by (simp add: custom_call_def)
  have smhm: "bound_smhm_model stub_env ?p = mstar_model"
    by (simp add: bound_smhm_model_def the_default_def custom_call_def)
  from predicate_key_is_fixed [OF mstar_threshold_built thr]
  obtain fa pred where run:
      "SmHmBinarySFR stub_env ?p =
         ([SfrCall (sfr_args_of stub_env ?p),
           SmhmCall (bound_smhm_model stub_env ?p) (smhm_args_of stub_env ?p),
           FactoryCall fa], SubhaloModelFactory stub_env fa)"
    and att: "galaxy_selection_func fa = Some pred"
    and answer: "\<forall>x v. x ''stellar_mass'' = Some v \<longrightarrow> pred x = py_gt v (PInt 10)"
    and missing: "\<forall>x. x ''stellar_mass'' = None \<longrightarrow> pred x = Inl KeyError"
    and key: "blueprint fa (galprop_name (Component ''mstar'' (2::nat))) \<noteq> None"
    and disagree: "galprop_name (Component ''mstar'' (2::nat)) \<noteq> ''stellar_mass'' \<longrightarrow>
      (\<forall>x v. pred (x(galprop_name (Component ''mstar'' (2::nat)) \<mapsto> v)) = pred x) \<and>
      (galprop_name (Component ''quiescent'' (0::nat)) \<noteq> ''stellar_mass'' \<longrightarrow>
         blueprint fa ''stellar_mass'' = None)"
    by (elim exE conjE)
  have k: "blueprint fa ''mstar'' \<noteq> None"
    using key by simp
  have ignores: "\<forall>x v. pred (x(''mstar'' \<mapsto> v)) = pred x"
    and nokey: "blueprint fa ''stellar_mass'' = None"
    using disagree by simp_all
  have yes: "pred [''stellar_mass'' \<mapsto> Fin 11] = Inr True"
    using answer by (simp add: py_gt_def)
  have no: "pred [''stellar_mass'' \<mapsto> Fin 9] = Inr False"
    using answer by (simp add: py_gt_def)
  have a: "pred [''mstar'' \<mapsto> Fin 11] = Inl KeyError"
    using missing by simp
  have same: "pred [''stellar_mass'' \<mapsto> Fin 9, ''mstar'' \<mapsto> Fin 11] =
      pred [''stellar_mass'' \<mapsto> Fin 9]"
    using ignores by simp
  have b: "pred [''stellar_mass'' \<mapsto> Fin 9, ''mstar'' \<mapsto> Fin 11] = Inr False"
    unfolding same by (rule no)
  have calls: "fst (SmHmBinarySFR stub_env ?p) =
      [SfrCall (sfr_args_of stub_env ?p), SmhmCall mstar_model (smhm_args_of stub_env ?p),
       FactoryCall fa]"
    by (simp add: run smhm)
  show ?thesis
    by (rule exI [of _ fa], rule exI [of _ pred]) (intro conjI calls att k nokey yes no a b)
qed

section \<open>What the sub-model constructors receive\<close>

lemma SmHmBinarySFR_first_call:
  assumes "\<not> keyword_clash sfr_keywords (kwargs p)"
  shows "\<exists>rest. fst (SmHmBinarySFR env p) = SfrCall (sfr_args_of env p) # rest \<and>
           (\<forall>b. SfrCall b \<notin> set rest) \<and>
           (\<forall>f b. SmhmCall f b \<in> set rest \<longrightarrow> b = smhm_args_of env p)"
  using assms by (simp add: SmHmBinarySFR_def split: sum.splits)

text \<open>
  C6. The SFR sub-model constructor is the first collaborator called, it is called once,
  and it receives the values of \<^verbatim>\<open>sfr_abcissa\<close>, \<^verbatim>\<open>sfr_ordinates\<close> and \<^verbatim>\<open>logparam\<close>
  exactly as the caller gave them (the defaults of the signature when the caller gave
  none), with the property name \<^verbatim>\<open>quiescent\<close>, the primary-halo-property key that the
  stellar-mass constructor receives too, and the pass-through options. The hypothesis is
  that the constructor call takes place: the pass-through options repeat none of the
  keywords written out at lines 104-105.
\<close>

theorem sfr_options_round_trip:
  assumes noclash: "\<not> keyword_clash sfr_keywords (kwargs p)"
  shows "\<exists>a rest.
           fst (SmHmBinarySFR env p) = SfrCall a # rest \<and>
           (\<forall>b. SfrCall b \<notin> set rest) \<and>
           sfr_galprop_name a = ''quiescent'' \<and>
           sfr_prim_haloprop_key a = bound_prim_haloprop_key env p \<and>
           (\<forall>f b. SmhmCall f b \<in> set rest \<longrightarrow>
              smhm_prim_haloprop_key b = sfr_prim_haloprop_key a) \<and>
           sfr_kwargs a = kwargs p \<and>
           (\<forall>xs. sfr_abcissa p = Some xs \<longrightarrow> abcissa a = xs) \<and>
           (\<forall>ys. sfr_ordinates p = Some ys \<longrightarrow> ordinates a = ys) \<and>
           (\<forall>l. logparam p = Some l \<longrightarrow> sfr_logparam a = l) \<and>
           (sfr_abcissa p = None \<longrightarrow> abcissa a = PList [PInt 12, PInt 15]) \<and>
           (sfr_ordinates p = None \<longrightarrow>
              ordinates a = PList [float_literal (25 / 100), float_literal (75 / 100)]) \<and>
           (logparam p = None \<longrightarrow> sfr_logparam a = PBool True)"
proof -
  let ?a = "sfr_args_of env p"
  from SmHmBinarySFR_first_call [OF noclash, of env]
  obtain rest where first: "fst (SmHmBinarySFR env p) = SfrCall ?a # rest"
    and once: "\<forall>b. SfrCall b \<notin> set rest"
    and smhm: "\<forall>f b. SmhmCall f b \<in> set rest \<longrightarrow> b = smhm_args_of env p"
    by (elim exE conjE)
  have name: "sfr_galprop_name ?a = ''quiescent''"
    by (simp add: sfr_args_of_def)
  have key: "sfr_prim_haloprop_key ?a = bound_prim_haloprop_key env p"
    by (simp add: sfr_args_of_def)
  have shared: "\<forall>f b. SmhmCall f b \<in> set rest \<longrightarrow>
      smhm_prim_haloprop_key b = sfr_prim_haloprop_key ?a"
  proof (intro allI impI)
    fix f b
    assume "SmhmCall f b \<in> set rest"
    with smhm have "b = smhm_args_of env p"
      by blast
    then show "smhm_prim_haloprop_key b = sfr_prim_haloprop_key ?a"
      by (simp add: sfr_args_of_def smhm_args_of_def)
  qed
  have kw: "sfr_kwargs ?a = kwargs p"
    by (simp add: sfr_args_of_def)
  have xs: "\<forall>xs. sfr_abcissa p = Some xs \<longrightarrow> abcissa ?a = xs"
    by (simp add: sfr_args_of_def bound_sfr_abcissa_def the_default_def)
  have ys: "\<forall>ys. sfr_ordinates p = Some ys \<longrightarrow> ordinates ?a = ys"
    by (simp add: sfr_args_of_def bound_sfr_ordinates_def the_default_def)
  have lp: "\<forall>l. logparam p = Some l \<longrightarrow> sfr_logparam ?a = l"
    by (simp add: sfr_args_of_def bound_logparam_def the_default_def)
  have dxs: "sfr_abcissa p = None \<longrightarrow> abcissa ?a = PList [PInt 12, PInt 15]"
    by (simp add: sfr_args_of_def bound_sfr_abcissa_def the_default_def)
  have dys: "sfr_ordinates p = None \<longrightarrow>
      ordinates ?a = PList [float_literal (25 / 100), float_literal (75 / 100)]"
    by (simp add: sfr_args_of_def bound_sfr_ordinates_def the_default_def)
  have dlp: "logparam p = None \<longrightarrow> sfr_logparam ?a = PBool True"
    by (simp add: sfr_args_of_def bound_logparam_def the_default_def)
  show ?thesis
    by (rule exI [of _ ?a], rule exI [of _ rest])
       (intro conjI first once name key shared kw xs ys lp dxs dys dlp)
qed

theorem sfr_options_round_trip_witness:
  "\<exists>a rest.
     fst (SmHmBinarySFR stub_env (tuned_call mstar_model)) = SfrCall a # rest \<and>
     sfr_galprop_name a = ''quiescent'' \<and>
     sfr_prim_haloprop_key a = ''halo_mvir'' \<and>
     abcissa a = PList [PInt 12, PInt 15] \<and>
     ordinates a = PList [float_literal (25 / 100), float_literal (75 / 100)] \<and>
     sfr_logparam a = PBool True"
proof -
  let ?p = "tuned_call mstar_model"
  have noclash: "\<not> keyword_clash sfr_keywords (kwargs ?p)"
    by (simp add: tuned_call_def empty_no_clash)
  have given: "sfr_abcissa ?p = Some (PList [PInt 12, PInt 15])"
    "sfr_ordinates ?p = Some (PList [float_literal (25 / 100), float_literal (75 / 100)])"
    "logparam ?p = Some (PBool True)"
    by (simp_all add: tuned_call_def)
  have key: "bound_prim_haloprop_key stub_env ?p = ''halo_mvir''"
    by (simp add: bound_prim_haloprop_key_def the_default_def tuned_call_def)
  from sfr_options_round_trip [OF noclash, of stub_env]
  obtain a rest where first: "fst (SmHmBinarySFR stub_env ?p) = SfrCall a # rest"
    and name: "sfr_galprop_name a = ''quiescent''"
    and k: "sfr_prim_haloprop_key a = bound_prim_haloprop_key stub_env ?p"
    and xs: "\<forall>xs. sfr_abcissa ?p = Some xs \<longrightarrow> abcissa a = xs"
    and ys: "\<forall>ys. sfr_ordinates ?p = Some ys \<longrightarrow> ordinates a = ys"
    and lp: "\<forall>l. logparam ?p = Some l \<longrightarrow> sfr_logparam a = l"
    by (elim exE conjE)
  have x: "abcissa a = PList [PInt 12, PInt 15]"
    using xs given(1) by blast
  have y: "ordinates a = PList [float_literal (25 / 100), float_literal (75 / 100)]"
    using ys given(2) by blast
  have l: "sfr_logparam a = PBool True"
    using lp given(3) by blast
  show ?thesis
    by (rule exI [of _ a], rule exI [of _ rest]) (simp add: first name k key x y l)
qed

lemma custom_smhm_model_at_most_once:
  assumes custom: "smhm_model p = Some f"
  shows "smhm_calls (fst (SmHmBinarySFR env p)) = [] \<or>
         smhm_calls (fst (SmHmBinarySFR env p)) = [(f, smhm_args_of env p)]"
  using custom
  by (simp add: SmHmBinarySFR_def bound_smhm_model_def the_default_def split: sum.splits)

lemma default_not_consulted:
  assumes custom: "smhm_model p = Some f"
  shows "SmHmBinarySFR (env\<lparr>Behroozi10SmHm := d\<rparr>) p = SmHmBinarySFR env p"
proof -
  have a: "sfr_args_of (env\<lparr>Behroozi10SmHm := d\<rparr>) p = sfr_args_of env p"
    by (simp add: sfr_args_of_def bound_prim_haloprop_key_def)
  have b: "smhm_args_of (env\<lparr>Behroozi10SmHm := d\<rparr>) p = smhm_args_of env p"
    by (simp add: smhm_args_of_def bound_prim_haloprop_key_def bound_redshift_def)
  have c: "bound_smhm_model (env\<lparr>Behroozi10SmHm := d\<rparr>) p = bound_smhm_model env p"
    using custom by (simp add: bound_smhm_model_def the_default_def)
  show ?thesis
    by (simp add: SmHmBinarySFR_def a b c cong: sum.case_cong if_cong)
qed

text \<open>
  C7. A custom \<^verbatim>\<open>smhm_model\<close> callable is the one invoked to build the stellar-mass
  sub-model, exactly once, and the run does not depend on the default model at all. It
  receives the primary-halo-property key that the SFR constructor received, the given
  redshift, the scatter abcissa \<^verbatim>\<open>[12]\<close>, the scatter ordinates \<^verbatim>\<open>[scatter_level]\<close> and
  the pass-through options. The hypotheses say that the run reaches the call of line 107
  and that the call binds: the SFR sub-model was constructed, and the pass-through options
  repeat no keyword written out in either constructor call.
\<close>

theorem custom_smhm_model_invoked_once:
  assumes custom: "smhm_model p = Some f"
      and noclash1: "\<not> keyword_clash sfr_keywords (kwargs p)"
      and sfr: "BinaryGalpropInterpolModel env (sfr_args_of env p) = Inr sfr_model"
      and noclash2: "\<not> keyword_clash smhm_keywords (kwargs p)"
  shows "\<exists>a. smhm_calls (fst (SmHmBinarySFR env p)) = [(f, a)] \<and>
           smhm_prim_haloprop_key a = bound_prim_haloprop_key env p \<and>
           smhm_prim_haloprop_key a = sfr_prim_haloprop_key (sfr_args_of env p) \<and>
           smhm_redshift a = bound_redshift env p \<and>
           (\<forall>z. redshift p = Some z \<longrightarrow> smhm_redshift a = z) \<and>
           scatter_abcissa a = PList [PInt 12] \<and>
           scatter_ordinates a = PList [bound_scatter_level p] \<and>
           (\<forall>s. scatter_level p = Some s \<longrightarrow> scatter_ordinates a = PList [s]) \<and>
           smhm_kwargs a = kwargs p \<and>
           (\<forall>d. SmHmBinarySFR (env\<lparr>Behroozi10SmHm := d\<rparr>) p = SmHmBinarySFR env p)"
proof -
  let ?a = "smhm_args_of env p"
  have f: "bound_smhm_model env p = f"
    using custom by (simp add: bound_smhm_model_def the_default_def)
  have once: "smhm_calls (fst (SmHmBinarySFR env p)) = [(f, ?a)]"
    using noclash1 sfr noclash2 by (simp add: SmHmBinarySFR_def f split: sum.splits)
  have key: "smhm_prim_haloprop_key ?a = bound_prim_haloprop_key env p"
    by (simp add: smhm_args_of_def)
  have shared: "smhm_prim_haloprop_key ?a = sfr_prim_haloprop_key (sfr_args_of env p)"
    by (simp add: smhm_args_of_def sfr_args_of_def)
  have z: "smhm_redshift ?a = bound_redshift env p"
    by (simp add: smhm_args_of_def)
  have given_z: "\<forall>z. redshift p = Some z \<longrightarrow> smhm_redshift ?a = z"
    by (simp add: smhm_args_of_def bound_redshift_def the_default_def)
  have anchor: "scatter_abcissa ?a = PList [PInt 12]"
    by (simp add: smhm_args_of_def)
  have level: "scatter_ordinates ?a = PList [bound_scatter_level p]"
    by (simp add: smhm_args_of_def)
  have given_level: "\<forall>s. scatter_level p = Some s \<longrightarrow> scatter_ordinates ?a = PList [s]"
    by (simp add: smhm_args_of_def bound_scatter_level_def the_default_def)
  have kw: "smhm_kwargs ?a = kwargs p"
    by (simp add: smhm_args_of_def)
  have dflt: "\<forall>d. SmHmBinarySFR (env\<lparr>Behroozi10SmHm := d\<rparr>) p = SmHmBinarySFR env p"
    by (simp add: default_not_consulted [OF custom])
  show ?thesis
    by (rule exI [of _ ?a])
       (intro conjI once key shared z given_z anchor level given_level kw dflt)
qed

theorem custom_smhm_model_invoked_once_witness:
  "\<exists>a. smhm_calls (fst (SmHmBinarySFR stub_env (tuned_call mstar_model))) = [(mstar_model, a)] \<and>
       smhm_prim_haloprop_key a = ''halo_mvir'' \<and>
       smhm_redshift a = float_literal (1 / 2) \<and>
       scatter_abcissa a = PList [PInt 12] \<and>
       scatter_ordinates a = PList [float_literal (3 / 10)]"
proof -
  let ?p = "tuned_call mstar_model"
  have custom: "smhm_model ?p = Some mstar_model"
    by (simp add: tuned_call_def)
  have noclash1: "\<not> keyword_clash sfr_keywords (kwargs ?p)"
    by (simp add: tuned_call_def empty_no_clash)
  have noclash2: "\<not> keyword_clash smhm_keywords (kwargs ?p)"
    by (simp add: tuned_call_def empty_no_clash)
  have sfr: "BinaryGalpropInterpolModel stub_env (sfr_args_of stub_env ?p) =
      Inr (Component ''quiescent'' 0)"
    by (simp add: stub_env_def sfr_args_of_def stub_sfr_model_def tuned_call_def
        bound_sfr_abcissa_def bound_sfr_ordinates_def the_default_def)
  have given: "redshift ?p = Some (float_literal (1 / 2))" "scatter_level ?p = Some (float_literal (3 / 10))"
    by (simp_all add: tuned_call_def)
  have key: "bound_prim_haloprop_key stub_env ?p = ''halo_mvir''"
    by (simp add: bound_prim_haloprop_key_def the_default_def tuned_call_def)
  from custom_smhm_model_invoked_once [OF custom noclash1 sfr noclash2]
  obtain a where once: "smhm_calls (fst (SmHmBinarySFR stub_env ?p)) = [(mstar_model, a)]"
    and k: "smhm_prim_haloprop_key a = bound_prim_haloprop_key stub_env ?p"
    and z: "\<forall>z. redshift ?p = Some z \<longrightarrow> smhm_redshift a = z"
    and anchor: "scatter_abcissa a = PList [PInt 12]"
    and level: "\<forall>s. scatter_level ?p = Some s \<longrightarrow> scatter_ordinates a = PList [s]"
    by (elim exE conjE)
  have zz: "smhm_redshift a = float_literal (1 / 2)"
    using z given(1) by blast
  have ll: "scatter_ordinates a = PList [float_literal (3 / 10)]"
    using level given(2) by blast
  show ?thesis
    by (rule exI [of _ a]) (simp add: once k key zz anchor ll)
qed

section \<open>Errors\<close>

lemma raised_call_is_last:
  assumes mem: "c \<in> set (fst (SmHmBinarySFR env p))"
      and r: "raised env c = Some e"
  shows "snd (SmHmBinarySFR env p) = Inl e \<and>
         last (fst (SmHmBinarySFR env p)) = c \<and>
         (\<forall>b \<in> set (butlast (fst (SmHmBinarySFR env p))). raised env b = None)"
  using assms
  by (auto simp: SmHmBinarySFR_def split: if_splits sum.splits)

text \<open>
  C8. When a call to a collaborator (either sub-model constructor, or the factory) raises
  an error \<open>e\<close>, the caller of \<^verbatim>\<open>SmHmBinarySFR\<close> gets that same \<open>e\<close>; the failing call is
  the last call of the run, so nothing is tried after it, and no call before it failed, so
  nothing was retried or recovered from. The run consists of constructor calls only.
\<close>

theorem collaborator_error_propagates:
  assumes mem: "c \<in> set (fst (SmHmBinarySFR env p))"
      and r: "raised env c = Some e"
  shows "snd (SmHmBinarySFR env p) = Inl e \<and>
         (\<exists>before. fst (SmHmBinarySFR env p) = before @ [c] \<and>
            (\<forall>b \<in> set before. raised env b = None))"
proof -
  let ?cs = "fst (SmHmBinarySFR env p)"
  from raised_call_is_last [OF mem r]
  have res: "snd (SmHmBinarySFR env p) = Inl e"
    and last: "last ?cs = c"
    and quiet: "\<forall>b \<in> set (butlast ?cs). raised env b = None"
    by simp_all
  have "?cs \<noteq> []"
    using mem by auto
  then have "?cs = butlast ?cs @ [c]"
    using last by (metis append_butlast_last_id)
  with quiet have "\<exists>before. ?cs = before @ [c] \<and> (\<forall>b \<in> set before. raised env b = None)"
    by blast
  with res show ?thesis ..
qed

theorem collaborator_error_propagates_witness:
  "snd (SmHmBinarySFR stub_env (custom_call failing_model Map.empty)) =
     Inl (OtherError ''rejected'') \<and>
   fst (SmHmBinarySFR stub_env (custom_call failing_model Map.empty)) =
     [SfrCall (sfr_args_of stub_env (custom_call failing_model Map.empty)),
      SmhmCall failing_model (smhm_args_of stub_env (custom_call failing_model Map.empty))]"
proof -
  let ?p = "custom_call failing_model Map.empty"
  let ?c = "SmhmCall failing_model (smhm_args_of stub_env ?p)"
  have noclash: "\<not> keyword_clash sfr_keywords (kwargs ?p)"
    "\<not> keyword_clash smhm_keywords (kwargs ?p)"
    by (simp_all add: custom_call_def empty_no_clash)
  have sfr: "BinaryGalpropInterpolModel stub_env (sfr_args_of stub_env ?p) =
      Inr (Component ''quiescent'' 0)"
    by (simp add: stub_env_def sfr_args_of_def stub_sfr_model_def custom_call_def
        bound_sfr_abcissa_def bound_sfr_ordinates_def the_default_def)
  have f: "bound_smhm_model stub_env ?p = failing_model"
    by (simp add: bound_smhm_model_def the_default_def custom_call_def)
  have fails: "failing_model (smhm_args_of stub_env ?p) = Inl (OtherError ''rejected'')"
    by (simp add: failing_model_def)
  have calls: "fst (SmHmBinarySFR stub_env ?p) = [SfrCall (sfr_args_of stub_env ?p), ?c]"
    by (simp add: SmHmBinarySFR_def noclash sfr f fails)
  have mem: "?c \<in> set (fst (SmHmBinarySFR stub_env ?p))"
    by (simp add: calls)
  have r: "raised stub_env ?c = Some (OtherError ''rejected'')"
    by (simp add: fails)
  from collaborator_error_propagates [OF mem r]
  have "snd (SmHmBinarySFR stub_env ?p) = Inl (OtherError ''rejected'')"
    by (rule conjunct1)
  with calls show ?thesis
    by (rule conjI [rotated])
qed

lemma errors_have_a_source:
  assumes "snd (SmHmBinarySFR env p) = Inl e"
  shows "(e = TypeError \<and>
            (keyword_clash sfr_keywords (kwargs p) \<or> keyword_clash smhm_keywords (kwargs p))) \<or>
         (\<exists>c \<in> set (fst (SmHmBinarySFR env p)). raised env c = Some e)"
  using assms
  by (auto simp: SmHmBinarySFR_def split: if_splits sum.splits)

section \<open>HOD_Model_Designer: the claim\<close>




end
